theory Spec2Isabelle
  imports Complex_Main
begin

section \<open>RS-HDMR-GPR: vectors, matrices and the error metric\<close>

text \<open>
  The development follows \<^verbatim>\<open>RS_HDMR_GPR_Code.py\<close>. Numbers that the program keeps as
  numpy \<^verbatim>\<open>float64\<close> values are real numbers here, and the operations on them are those
  of the real numbers; the rounding of an operation is \<open>float64\<close>, which the uniform
  initialisation and its row sums are also given with.
  Exceptions are values of the type \<open>error\<close>, and a function that can raise returns
  \<open>error + 'a\<close>, with \<open>Inl\<close> for the exception.
\<close>

datatype error =
    ZeroDivisionError
  | ValueError
  | IndexError
  | KeyError
  | UnboundLocalError
  | LibraryError

text \<open>Sequencing of computations that may raise: the first exception is the result.\<close>

definition bind :: "error + 'a \<Rightarrow> ('a \<Rightarrow> error + 'b) \<Rightarrow> error + 'b" where
  "bind m f = (case m of Inl e \<Rightarrow> Inl e | Inr x \<Rightarrow> f x)"

type_synonym vec = "real list"

text \<open>
  An elementwise operation on two vectors. In the program one operand of every such
  operation comes from the pandas series \<^verbatim>\<open>y_train\<close> or \<^verbatim>\<open>y_test\<close>, or both operands are
  the same column: equal lengths combine position by position, and pandas raises
  \<^verbatim>\<open>ValueError\<close> for operands of different lengths.
\<close>

definition np_binop :: "(real \<Rightarrow> real \<Rightarrow> real) \<Rightarrow> vec \<Rightarrow> vec \<Rightarrow> error + vec" where
  "np_binop f a b = (if length a = length b then Inr (map2 f a b) else Inl ValueError)"

definition scale :: "vec \<Rightarrow> real \<Rightarrow> vec" where
  "scale v c = map (\<lambda>x. x * c) v"

text \<open>
  The value of \<^verbatim>\<open>np.sqrt(MSE / ytest.size)\<close>: numpy divides \<open>0.0\<close> by a size of zero to
  \<^verbatim>\<open>nan\<close> (with a warning, no exception), which is not a real number.
\<close>

datatype npfloat = Finite real | NaN

text \<open>
  \<^verbatim>\<open>
  def rmse(ypred, ytest):
      Sqerr = np.power(ytest - ypred, 2)
      MSE = np.sum(Sqerr)
      rmse = np.sqrt(MSE / ytest.size)
      return rmse
  \<close>
\<close>

definition rmse :: "vec \<Rightarrow> vec \<Rightarrow> error + npfloat" where
  "rmse ypred ytest =
     bind (np_binop (-) ytest ypred) (\<lambda>d.
       let Sqerr = map (\<lambda>x. x ^ 2) d;
           MSE = sum_list Sqerr
       in if length ytest = 0 then Inr NaN
          else Inr (Finite (sqrt (MSE / real (length ytest)))))"

text \<open>
  A two-dimensional numpy array of shape \<open>(shape0, shape1)\<close>, kept by columns, since the
  program reads and writes it through \<^verbatim>\<open>F[:, i]\<close> only. Every column of an array has
  \<open>shape0\<close> entries (\<open>wf_matrix\<close>).
\<close>

record matrix =
  shape0 :: nat
  cols :: "vec list"

definition shape1 :: "matrix \<Rightarrow> nat" where
  "shape1 F = length (cols F)"

definition wf_matrix :: "matrix \<Rightarrow> bool" where
  "wf_matrix F = list_all (\<lambda>c. length c = shape0 F) (cols F)"

definition column :: "matrix \<Rightarrow> nat \<Rightarrow> vec" where
  "column F i = cols F ! i"

definition entry :: "matrix \<Rightarrow> nat \<Rightarrow> nat \<Rightarrow> real" where
  "entry F r i = cols F ! i ! r"

definition full :: "nat \<Rightarrow> nat \<Rightarrow> real \<Rightarrow> matrix" where
  "full n m x = \<lparr>shape0 = n, cols = replicate m (replicate n x)\<rparr>"

text \<open>
  \<^verbatim>\<open>
  def sumcol(F, j):
      s = np.zeros(F.shape[0])
      for i in range(F.shape[1]):
          if i == j:
              i += 1
          else:
              s = s + F[:, i]
      return s
  \<close>
  The assignment \<^verbatim>\<open>i += 1\<close> changes the loop variable for the rest of that iteration
  only, where it is not read again: the next iteration takes the next element of the
  range. The loop below runs over the remaining elements of the range.
\<close>

fun sumcol_loop :: "matrix \<Rightarrow> int \<Rightarrow> nat list \<Rightarrow> vec \<Rightarrow> vec" where
  "sumcol_loop F j [] s = s"
| "sumcol_loop F j (i # is) s =
     (if int i = j then sumcol_loop F j is s
      else sumcol_loop F j is (map2 (+) s (column F i)))"

definition sumcol :: "matrix \<Rightarrow> int \<Rightarrow> vec" where
  "sumcol F j = sumcol_loop F j [0..<shape1 F] (replicate (shape0 F) 0)"

text \<open>The residual of line 132: \<^verbatim>\<open>vect = y_train - sumcol(component_function_train, i)\<close>.\<close>

definition residual :: "vec \<Rightarrow> matrix \<Rightarrow> nat \<Rightarrow> error + vec" where
  "residual y_train F i = np_binop (-) y_train (sumcol F (int i))"

section \<open>The combination enumerator and the data frames\<close>

text \<open>
  \<^verbatim>\<open>itertools.combinations(iterable, r)\<close>: the subsequences of length \<open>r\<close> of the input, in
  lexicographic order of their positions; a negative \<open>r\<close> raises \<^verbatim>\<open>ValueError\<close>, and an
  \<open>r\<close> above the length of the input gives no combination at all.
\<close>

fun combinations_of :: "'a list \<Rightarrow> nat \<Rightarrow> 'a list list" where
  "combinations_of xs 0 = [[]]"
| "combinations_of [] (Suc r) = []"
| "combinations_of (x # xs) (Suc r) =
     map ((#) x) (combinations_of xs r) @ combinations_of xs (Suc r)"

definition combinations :: "'a list \<Rightarrow> int \<Rightarrow> error + 'a list list" where
  "combinations xs r = (if r < 0 then Inl ValueError else Inr (combinations_of xs (nat r)))"

text \<open>
  A pandas data frame: its number of rows and its labelled columns. Iterating over a
  data frame gives the column labels, which are the feature identifiers.
\<close>

record 'c dataframe =
  df_shape0 :: nat
  df_columns :: "('c \<times> vec) list"

definition labels :: "'c dataframe \<Rightarrow> 'c list" where
  "labels X = map fst (df_columns X)"

definition wf_dataframe :: "'c dataframe \<Rightarrow> bool" where
  "wf_dataframe X =
     (distinct (labels X) \<and> list_all (\<lambda>cv. length (snd cv) = df_shape0 X) (df_columns X))"

text \<open>\<^verbatim>\<open>pd.DataFrame(X)[c]\<close> for one label \<open>c\<close>: a missing label raises \<^verbatim>\<open>KeyError\<close>.\<close>

definition get_column :: "'c dataframe \<Rightarrow> 'c \<Rightarrow> error + vec" where
  "get_column X c = (case map_of (df_columns X) c of None \<Rightarrow> Inl KeyError | Some v \<Rightarrow> Inr v)"

fun lookup_columns :: "'c dataframe \<Rightarrow> 'c list \<Rightarrow> error + vec list" where
  "lookup_columns X [] = Inr []"
| "lookup_columns X (c # cs) =
     (case get_column X c of
        Inl e \<Rightarrow> Inl e
      | Inr v \<Rightarrow> (case lookup_columns X cs of Inl e \<Rightarrow> Inl e | Inr vs \<Rightarrow> Inr (v # vs)))"

text \<open>\<^verbatim>\<open>pd.DataFrame(X)[combo]\<close> for an array of labels: the inputs restricted to them.\<close>

definition select_columns :: "'c dataframe \<Rightarrow> 'c list \<Rightarrow> error + matrix" where
  "select_columns X combo =
     bind (lookup_columns X combo) (\<lambda>vs. Inr \<lparr>shape0 = df_shape0 X, cols = vs\<rparr>)"

text \<open>
  \<^verbatim>\<open>F[:, i] = v\<close>: a vector of \<open>shape0\<close> entries replaces the column, a vector of one entry
  is broadcast, and any other length raises \<^verbatim>\<open>ValueError\<close>.
\<close>

definition set_column :: "matrix \<Rightarrow> nat \<Rightarrow> vec \<Rightarrow> error + matrix" where
  "set_column F i v =
     (if shape1 F \<le> i then Inl IndexError
      else if length v = shape0 F then Inr (F\<lparr>cols := (cols F)[i := v]\<rparr>)
      else if length v = 1 then Inr (F\<lparr>cols := (cols F)[i := replicate (shape0 F) (hd v)]\<rparr>)
      else Inl ValueError)"

section \<open>The regression library\<close>

text \<open>
  A \<^verbatim>\<open>GaussianProcessRegressor\<close> object: the configuration it was constructed with (the
  length scale of the RBF kernel, the noise level \<open>alpha\<close>, the optimizer) and what its
  last \<^verbatim>\<open>fit\<close> left in it, of a type \<open>'m\<close> that the library chooses. A new object is
  unfitted.
\<close>

record 'm gpr =
  gpr_length_scale :: real
  gpr_alpha :: real
  gpr_optimizer :: "string option"
  gpr_fitted :: "'m option"

definition GaussianProcessRegressor :: "real \<Rightarrow> real \<Rightarrow> string option \<Rightarrow> 'm gpr" where
  "GaussianProcessRegressor l a opt =
     \<lparr>gpr_length_scale = l, gpr_alpha = a, gpr_optimizer = opt, gpr_fitted = None\<rparr>"

text \<open>
  The fitting and predicting routines of scikit-learn and \<^verbatim>\<open>np.polyfit\<close> are not part of
  the program: they are parameters of the model, and each of them may raise.
  \<open>lib_fit g xx y\<close> is what \<^verbatim>\<open>g.fit(xx, y)\<close> leaves in \<open>g\<close>, \<open>lib_predict g xx\<close> is
  \<^verbatim>\<open>g.predict(xx)\<close>, \<open>lib_predict_std g xx\<close> is \<^verbatim>\<open>g.predict(xx, return_std=True)\<close>, and
  \<open>lib_polyfit x y d\<close> is \<^verbatim>\<open>np.polyfit(x, y, d)\<close>, the coefficients from the highest degree.
\<close>

record 'm library =
  lib_fit :: "'m gpr \<Rightarrow> matrix \<Rightarrow> vec \<Rightarrow> error + 'm"
  lib_predict :: "'m gpr \<Rightarrow> matrix \<Rightarrow> error + vec"
  lib_predict_std :: "'m gpr \<Rightarrow> matrix \<Rightarrow> error + vec \<times> vec"
  lib_polyfit :: "vec \<Rightarrow> vec \<Rightarrow> nat \<Rightarrow> error + vec"

text \<open>
  scikit-learn validates the inputs of \<^verbatim>\<open>fit\<close> and \<^verbatim>\<open>predict\<close>: an input with no feature
  raises \<^verbatim>\<open>ValueError\<close> (a minimum of one feature is required). The library is a
  parameter of the model, and this is the property that a theorem about inputs with no
  feature assumes of it.
\<close>

definition rejects_no_features :: "'m library \<Rightarrow> bool" where
  "rejects_no_features lib =
     (\<forall>g xx y. shape1 xx = 0 \<longrightarrow>
        lib_fit lib g xx y = Inl ValueError
        \<and> lib_predict lib g xx = Inl ValueError
        \<and> lib_predict_std lib g xx = Inl ValueError)"

text \<open>\<^verbatim>\<open>np.poly1d(f)(x)\<close> at one point, by Horner's rule.\<close>

definition poly1d :: "vec \<Rightarrow> real \<Rightarrow> real" where
  "poly1d f x = foldl (\<lambda>acc c. acc * x + c) 0 f"

section \<open>The fitting routine\<close>

text \<open>A \<^verbatim>\<open>for\<close> loop whose body may raise: the first exception ends the loop.\<close>

fun for_each :: "'i list \<Rightarrow> ('i \<Rightarrow> 's \<Rightarrow> error + 's) \<Rightarrow> 's \<Rightarrow> error + 's" where
  "for_each [] body s = Inr s"
| "for_each (i # is) body s =
     (case body i s of Inl e \<Rightarrow> Inl e | Inr s' \<Rightarrow> for_each is body s')"

text \<open>
  \<^verbatim>\<open>xs[i]\<close> for an index \<open>i \<ge> 0\<close> of a list or of the rows of an array: an index beyond
  the end raises \<^verbatim>\<open>IndexError\<close>.
\<close>

definition item :: "'a list \<Rightarrow> nat \<Rightarrow> error + 'a" where
  "item xs i = (if i < length xs then Inr (xs ! i) else Inl IndexError)"

text \<open>The keyword arguments of \<^verbatim>\<open>RS_HDMR_GPR\<close>, and their default values.\<close>

record params =
  order :: int
  alpha :: real
  use_decay_alpha :: string
  scale_factor :: real
  length_scale :: real
  number_cycles :: int
  init :: string
  plot_error_bars :: string
  mixe :: string
  optimizer :: "string option"

definition default_params :: params where
  "default_params =
     \<lparr>order = 3, alpha = 1 / 10 ^ 8, use_decay_alpha = ''no'', scale_factor = 1,
      length_scale = 6 / 10, number_cycles = 10, init = ''naive'', plot_error_bars = ''no'',
      mixe = ''no'', optimizer = None\<rparr>"

definition mean :: "vec \<Rightarrow> real" where
  "mean y = sum_list y / real (length y)"

text \<open>
  Line 96, the initialisation \<^verbatim>\<open>(1 / M) * mean * np.ones((N, M))\<close>: the division of the
  Python integers \<open>1\<close> and \<open>M\<close> raises \<^verbatim>\<open>ZeroDivisionError\<close> when there is no combination.
  Here the two products are those of the real numbers; \<open>init_naive_float64\<close> below is
  the same line with the rounding of each operation, and fails on the same inputs.
\<close>

definition init_naive :: "nat \<Rightarrow> nat \<Rightarrow> real \<Rightarrow> error + matrix" where
  "init_naive N M mu =
     (if M = 0 then Inl ZeroDivisionError else Inr (full N M ((1 / real M) * mu * 1)))"

text \<open>
  The arithmetic of the program is that of IEEE 754 binary64 numbers. Every operation
  returns the exact result rounded to the nearest number with a significand of 53 bits,
  a tie going to the even significand: \<open>float64 x\<close> is that number, the significand being
  \<open>round_half_even\<close> of \<open>x\<close> scaled to 53 bits. The exponent is left unbounded: overflow
  to infinity and the subnormal numbers are not part of the model.
\<close>

definition round_half_even :: "real \<Rightarrow> int" where
  "round_half_even x =
     (if x - of_int \<lfloor>x\<rfloor> < 1 / 2 then \<lfloor>x\<rfloor>
      else if 1 / 2 < x - of_int \<lfloor>x\<rfloor> then \<lfloor>x\<rfloor> + 1
      else if even \<lfloor>x\<rfloor> then \<lfloor>x\<rfloor> else \<lfloor>x\<rfloor> + 1)"

definition float64 :: "real \<Rightarrow> real" where
  "float64 x =
     (if x = 0 then 0
      else real_of_int (round_half_even (x / 2 powr of_int (\<lfloor>log 2 \<bar>x\<bar>\<rfloor> - 52)))
             * 2 powr of_int (\<lfloor>log 2 \<bar>x\<bar>\<rfloor> - 52))"

text \<open>
  Line 96 as the interpreter evaluates it, from left to right: \<^verbatim>\<open>1 / M\<close> rounded, then
  its product with the mean rounded, then the product with the entry \<open>1.0\<close> of
  \<^verbatim>\<open>np.ones\<close> rounded; every cell holds that one value.
\<close>

definition naive_cell :: "nat \<Rightarrow> real \<Rightarrow> real" where
  "naive_cell M mu = float64 (float64 (float64 (1 / real M) * mu) * 1)"

definition init_naive_float64 :: "nat \<Rightarrow> nat \<Rightarrow> real \<Rightarrow> error + matrix" where
  "init_naive_float64 N M mu =
     (if M = 0 then Inl ZeroDivisionError else Inr (full N M (naive_cell M mu)))"

text \<open>
  \<^verbatim>\<open>sumcol\<close> with the rounding of each addition \<^verbatim>\<open>s = s + F[:, i]\<close>: the columns are
  added one after the other, from the zero vector.
\<close>

fun sumcol_loop_float64 :: "matrix \<Rightarrow> int \<Rightarrow> nat list \<Rightarrow> vec \<Rightarrow> vec" where
  "sumcol_loop_float64 F j [] s = s"
| "sumcol_loop_float64 F j (i # is) s =
     (if int i = j then sumcol_loop_float64 F j is s
      else sumcol_loop_float64 F j is (map2 (\<lambda>a b. float64 (a + b)) s (column F i)))"

definition sumcol_float64 :: "matrix \<Rightarrow> int \<Rightarrow> vec" where
  "sumcol_float64 F j = sumcol_loop_float64 F j [0..<shape1 F] (replicate (shape0 F) 0)"

text \<open>
  Lines 98 to 104, the polynomial initialisation: column \<open>i\<close> is the cubic fitted to the
  first feature of combination \<open>i\<close>, evaluated at the training inputs. The first feature
  of an empty combination raises \<^verbatim>\<open>IndexError\<close>.
\<close>

definition init_poly_step ::
  "'m library \<Rightarrow> 'c dataframe \<Rightarrow> vec \<Rightarrow> 'c list list \<Rightarrow> nat \<Rightarrow> matrix \<Rightarrow> error + matrix" where
  "init_poly_step lib X_train y_train all_combos i F =
     bind (item all_combos i) (\<lambda>combo.
     bind (item combo 0) (\<lambda>c.
     bind (get_column X_train c) (\<lambda>x.
     bind (lib_polyfit lib x y_train 3) (\<lambda>f.
     set_column F i (map (poly1d f) x)))))"

definition init_poly ::
  "'m library \<Rightarrow> 'c dataframe \<Rightarrow> vec \<Rightarrow> 'c list list \<Rightarrow> error + matrix" where
  "init_poly lib X_train y_train all_combos =
     for_each [0..<length all_combos] (init_poly_step lib X_train y_train all_combos)
       (full (df_shape0 X_train) (length all_combos) 1)"

text \<open>
  The local variables that the training loop changes. \<open>component_function_train\<close> is
  \<open>None\<close> while the name is not bound, which is the case when \<open>init\<close> is neither
  \<^verbatim>\<open>'naive'\<close> nor \<^verbatim>\<open>'poly'\<close>: reading it then raises \<^verbatim>\<open>UnboundLocalError\<close>.
\<close>

record 'm train_state =
  alpha_now :: real
  GPR :: "'m gpr list"
  component_function_train :: "matrix option"
  rmse_train :: "npfloat list"

definition bound :: "matrix option \<Rightarrow> error + matrix" where
  "bound F = (case F of None \<Rightarrow> Inl UnboundLocalError | Some F' \<Rightarrow> Inr F')"

text \<open>
  Line 115, \<^verbatim>\<open>maxscaledowncycle = int(number_cycles / 3)\<close>: the quotient rounded towards
  zero.
\<close>

definition maxscaledowncycle :: "int \<Rightarrow> int" where
  "maxscaledowncycle n = (if 0 \<le> n then n div 3 else - ((- n) div 3))"

text \<open>
  The factor \<^verbatim>\<open>min(1, ((k + 1) / maxscaledowncycle) + 0.5)\<close> of lines 137 and 139, a
  division of Python integers.
\<close>

definition ramp :: "nat \<Rightarrow> int \<Rightarrow> error + real" where
  "ramp k m =
     (if m = 0 then Inl ZeroDivisionError
      else Inr (min 1 (real (k + 1) / real_of_int m + 1 / 2)))"

text \<open>
  Lines 118 to 129, at the start of cycle \<open>k\<close>:
  \<^verbatim>\<open>
  if use_decay_alpha == 'yes':
      if k < 2:
          GPR = [GaussianProcessRegressor(kernel=rbf, alpha=alpha, optimizer=optimizer) for i in range(0, M)]
      elif k >= 2 and k < 8:
          GPR = [GaussianProcessRegressor(kernel=rbf, alpha=alpha * 1e-1, optimizer=optimizer) for i in range(0, M)]
          alpha = alpha * 1e-1
      else:
          GPR = [GaussianProcessRegressor(kernel=rbf, alpha=alpha, optimizer=optimizer) for i in range(0, M)]
  \<close>
\<close>

definition decay_alpha :: "params \<Rightarrow> nat \<Rightarrow> nat \<Rightarrow> 'm train_state \<Rightarrow> 'm train_state" where
  "decay_alpha p M k st =
     (if use_decay_alpha p = ''yes'' then
        (if k < 2 then
           st\<lparr>GPR := replicate M (GaussianProcessRegressor (length_scale p) (alpha_now st) (optimizer p))\<rparr>
         else if 2 \<le> k \<and> k < 8 then
           st\<lparr>GPR := replicate M
                  (GaussianProcessRegressor (length_scale p) (alpha_now st * (1 / 10)) (optimizer p)),
              alpha_now := alpha_now st * (1 / 10)\<rparr>
         else
           st\<lparr>GPR := replicate M (GaussianProcessRegressor (length_scale p) (alpha_now st) (optimizer p))\<rparr>)
      else st)"

text \<open>
  Lines 132 to 139, for combination \<open>i\<close> in cycle \<open>k\<close>:
  \<^verbatim>\<open>
  vect = y_train - sumcol(component_function_train, i)
  component_function_train[:,i] = vect
  xx = pd.DataFrame(X_train)[all_combos[i]]
  GPR[i].fit(xx, component_function_train[:, i])
  if mixe == 'yes':
      component_function_train[:, i] = (GPR[i].predict(xx) * min(1, ((k + 1) / maxscaledowncycle) + 0.5) + vect) / 2
  else:
      component_function_train[:, i] = GPR[i].predict(xx) * min(1, ((k + 1) / maxscaledowncycle) + 0.5)
  \<close>
\<close>

definition new_column :: "params \<Rightarrow> vec \<Rightarrow> real \<Rightarrow> vec \<Rightarrow> error + vec" where
  "new_column p pred r vect =
     (if mixe p = ''yes'' then
        bind (np_binop (+) (scale pred r) vect) (\<lambda>s. Inr (map (\<lambda>x. x / 2) s))
      else Inr (scale pred r))"

definition update_component ::
  "'m library \<Rightarrow> 'c dataframe \<Rightarrow> vec \<Rightarrow> 'c list list \<Rightarrow> params \<Rightarrow> int \<Rightarrow> nat \<Rightarrow> nat
     \<Rightarrow> 'm train_state \<Rightarrow> error + 'm train_state" where
  "update_component lib X_train y_train all_combos p m k i st =
     bind (bound (component_function_train st)) (\<lambda>F.
     bind (residual y_train F i) (\<lambda>vect.
     bind (set_column F i vect) (\<lambda>F1.
     bind (item all_combos i) (\<lambda>combo.
     bind (select_columns X_train combo) (\<lambda>xx.
     bind (item (GPR st) i) (\<lambda>g0.
     bind (lib_fit lib g0 xx (column F1 i)) (\<lambda>fitted.
     let g = g0\<lparr>gpr_fitted := Some fitted\<rparr> in
     bind (lib_predict lib g xx) (\<lambda>pred.
     bind (ramp k m) (\<lambda>r.
     bind (new_column p pred r vect) (\<lambda>v.
     bind (set_column F1 i v) (\<lambda>F2.
     Inr (st\<lparr>GPR := (GPR st)[i := g], component_function_train := Some F2\<rparr>))))))))))))"

text \<open>
  Line 140, the entry of the history at the end of a cycle:
  \<^verbatim>\<open>rmse(y_train * scale_factor, sumcol(component_function_train, 10000)*scale_factor)\<close>.
\<close>

definition train_rmse :: "params \<Rightarrow> vec \<Rightarrow> matrix \<Rightarrow> error + npfloat" where
  "train_rmse p y_train F =
     rmse (scale y_train (scale_factor p)) (scale (sumcol F 10000) (scale_factor p))"

text \<open>One pass of the loop of line 116.\<close>

definition cycle ::
  "'m library \<Rightarrow> 'c dataframe \<Rightarrow> vec \<Rightarrow> 'c list list \<Rightarrow> params \<Rightarrow> int \<Rightarrow> nat
     \<Rightarrow> 'm train_state \<Rightarrow> error + 'm train_state" where
  "cycle lib X_train y_train all_combos p m k st =
     bind (for_each [0..<length all_combos]
             (update_component lib X_train y_train all_combos p m k)
             (decay_alpha p (length all_combos) k st)) (\<lambda>st'.
     bind (bound (component_function_train st')) (\<lambda>F.
     bind (train_rmse p y_train F) (\<lambda>e.
     Inr (st'\<lparr>rmse_train := rmse_train st' @ [e]\<rparr>))))"

text \<open>
  Lines 150 to 155, the test bloc:
  \<^verbatim>\<open>
  for i in range(0, all_combos.shape[0]):
      xt = pd.DataFrame(X_test)[all_combos[i]]
      component_function_test[:, i], errorbars[:, i] = GPR[i].predict(xt, return_std=True)
      errorbars[:, i]=errorbars[:, i] * errorbars[:, i]
  \<close>
\<close>

definition test_component ::
  "'m library \<Rightarrow> 'c dataframe \<Rightarrow> 'c list list \<Rightarrow> 'm gpr list \<Rightarrow> nat
     \<Rightarrow> matrix \<times> matrix \<Rightarrow> error + matrix \<times> matrix" where
  "test_component lib X_test all_combos gprs i ts =
     bind (item all_combos i) (\<lambda>combo.
     bind (select_columns X_test combo) (\<lambda>xt.
     bind (item gprs i) (\<lambda>g.
     bind (lib_predict_std lib g xt) (\<lambda>ms.
     bind (set_column (fst ts) i (fst ms)) (\<lambda>component_function_test.
     bind (set_column (snd ts) i (snd ms)) (\<lambda>errorbars.
     bind (np_binop (*) (column errorbars i) (column errorbars i)) (\<lambda>sq.
     bind (set_column errorbars i sq) (\<lambda>errorbars'.
     Inr (component_function_test, errorbars')))))))))"

text \<open>
  Lines 156 to 158: \<^verbatim>\<open>ypred = sumcol(component_function_test, 10000)\<close> and
  \<^verbatim>\<open>error_bars = np.sqrt(sumcol(errorbars, 5000))\<close>; the function returns
  \<^verbatim>\<open>error_bars * scale_factor\<close>.
\<close>

definition ypred_of :: "matrix \<Rightarrow> vec" where
  "ypred_of component_function_test = sumcol component_function_test 10000"

definition error_bars_of :: "matrix \<Rightarrow> vec" where
  "error_bars_of errorbars = map sqrt (sumcol errorbars 5000)"

text \<open>
  The local variables when the loop of line 116 starts: the regressors of line 110, one
  for each combination, the noise level \<open>alpha\<close> of the call, the initialised component
  functions and the empty history of line 114.
\<close>

definition initial_state :: "params \<Rightarrow> nat \<Rightarrow> matrix option \<Rightarrow> 'm train_state" where
  "initial_state p M F0 =
     \<lparr>alpha_now = alpha p,
      GPR = replicate M (GaussianProcessRegressor (length_scale p) (alpha p) (optimizer p)),
      component_function_train = F0,
      rmse_train = []\<rparr>"

text \<open>
  The function \<^verbatim>\<open>RS_HDMR_GPR\<close>. Its result is the tuple of line 183. The charts that it
  draws and saves and the lines that it prints are not part of the model.
\<close>

definition RS_HDMR_GPR ::
  "'m library \<Rightarrow> 'c dataframe \<Rightarrow> vec \<Rightarrow> 'c dataframe \<Rightarrow> vec \<Rightarrow> params
     \<Rightarrow> error + npfloat list \<times> npfloat \<times> 'm gpr list \<times> vec \<times> vec" where
  "RS_HDMR_GPR lib X_train y_train X_test y_test p =
     bind (combinations (labels X_train) (order p)) (\<lambda>all_combos.
     let M = length all_combos;
         mu = mean y_train
     in
     bind (if init p = ''naive''
           then bind (init_naive (df_shape0 X_train) M mu) (\<lambda>F. Inr (Some F))
           else Inr None) (\<lambda>F_naive.
     bind (if init p = ''poly''
           then bind (init_poly lib X_train y_train all_combos) (\<lambda>F. Inr (Some F))
           else Inr F_naive) (\<lambda>F0.
     bind (for_each [0..<nat (number_cycles p)]
             (cycle lib X_train y_train all_combos p (maxscaledowncycle (number_cycles p)))
             (initial_state p M F0)) (\<lambda>st.
     bind (for_each [0..<M] (test_component lib X_test all_combos (GPR st))
             (full (df_shape0 X_test) M 0, full (df_shape0 X_test) M 0)) (\<lambda>ts.
     let ypred = ypred_of (fst ts);
         y_pred_scaled = scale ypred (scale_factor p);
         error_bars = error_bars_of (snd ts)
     in
     bind (rmse (scale y_test (scale_factor p)) (scale ypred (scale_factor p))) (\<lambda>rmse_test.
     Inr (rmse_train st, rmse_test, GPR st, y_pred_scaled,
          scale error_bars (scale_factor p))))))))"

text \<open>
  A regressor for examples: fitting keeps the mean of the targets, predicting returns
  it for every sample with a standard deviation of one, and an unfitted regressor
  predicts zero. Its polynomial fit is the constant polynomial of the mean. A data set
  of two samples with the features \<open>0\<close> and \<open>1\<close>, a call with order one, four cycles and a
  noise level of one, the state that this call reaches after its four cycles, and a
  matrix of two rows and three columns are the inputs of the examples.
\<close>

definition stub_library :: "real library" where
  "stub_library =
     \<lparr>lib_fit = (\<lambda>g xx y. Inr (mean y)),
      lib_predict = (\<lambda>g xx. Inr (replicate (shape0 xx) (case gpr_fitted g of None \<Rightarrow> 0 | Some c \<Rightarrow> c))),
      lib_predict_std = (\<lambda>g xx.
         Inr (replicate (shape0 xx) (case gpr_fitted g of None \<Rightarrow> 0 | Some c \<Rightarrow> c),
              replicate (shape0 xx) 1)),
      lib_polyfit = (\<lambda>x y d. Inr (replicate d 0 @ [mean y]))\<rparr>"

text \<open>
  A second regressor for examples, which reads its inputs: like scikit-learn it raises
  \<^verbatim>\<open>ValueError\<close> for inputs with no feature, fitting keeps the mean of the targets, and
  the prediction for a sample is that mean plus the first feature of the sample.
\<close>

definition feature_library :: "real library" where
  "feature_library =
     \<lparr>lib_fit = (\<lambda>g xx y. if shape1 xx = 0 then Inl ValueError else Inr (mean y)),
      lib_predict = (\<lambda>g xx.
         if shape1 xx = 0 then Inl ValueError
         else Inr (map (\<lambda>a. a + (case gpr_fitted g of None \<Rightarrow> 0 | Some c \<Rightarrow> c)) (column xx 0))),
      lib_predict_std = (\<lambda>g xx.
         if shape1 xx = 0 then Inl ValueError
         else Inr (map (\<lambda>a. a + (case gpr_fitted g of None \<Rightarrow> 0 | Some c \<Rightarrow> c)) (column xx 0),
                   replicate (shape0 xx) 1)),
      lib_polyfit = (\<lambda>x y d. Inr (replicate d 0 @ [mean y]))\<rparr>"

definition example_frame :: "nat dataframe" where
  "example_frame = \<lparr>df_shape0 = 2, df_columns = [(0, [0, 1]), (1, [1, 0])]\<rparr>"

definition example_params :: params where
  "example_params = default_params\<lparr>order := 1, alpha := 1, number_cycles := 4\<rparr>"

definition example_state :: "real train_state" where
  "example_state =
     \<lparr>alpha_now = 1,
      GPR = [\<lparr>gpr_length_scale = 6 / 10, gpr_alpha = 1, gpr_optimizer = None, gpr_fitted = Some 1\<rparr>,
             \<lparr>gpr_length_scale = 6 / 10, gpr_alpha = 1, gpr_optimizer = None, gpr_fitted = Some 1\<rparr>],
      component_function_train = Some \<lparr>shape0 = 2, cols = [[1, 1], [1, 1]]\<rparr>,
      rmse_train = [Finite 1, Finite 1, Finite 1, Finite 1]\<rparr>"

definition example_matrix :: matrix where
  "example_matrix = \<lparr>shape0 = 2, cols = [[1, 2], [10, 20], [100, 200]]\<rparr>"

section \<open>Properties of the error metric\<close>

lemma np_binop_same_length:
  "length a = length b \<Longrightarrow> np_binop f a b = Inr (map2 f a b)"
  by (simp add: np_binop_def)

lemma rmse_same_length:
  assumes "length a = length b" and "length b \<noteq> 0"
  shows "rmse a b = Inr (Finite (sqrt (sum_list (map (\<lambda>x. x ^ 2) (map2 (-) b a)) / real (length b))))"
  using assms by (simp add: rmse_def bind_def np_binop_def)

lemma sum_list_sq_diff_swap:
  "length a = length (b :: vec) \<Longrightarrow>
     sum_list (map (\<lambda>x. x ^ 2) (map2 (-) a b)) = sum_list (map (\<lambda>x. x ^ 2) (map2 (-) b a))"
proof (induction a b rule: list_induct2)
  case Nil
  show ?case by simp
next
  case (Cons x xs y ys)
  have "(x - y) ^ 2 = (y - x) ^ 2"
    by (rule power2_commute)
  with Cons.IH show ?case by simp
qed

lemma sum_list_sq_diff_self:
  "sum_list (map (\<lambda>x. x ^ 2) (map2 (-) (a :: vec) a)) = 0"
  by (induction a) simp_all

lemma sum_list_sq_diff_nth:
  "length a = length (b :: vec) \<Longrightarrow>
     sum_list (map (\<lambda>x. x ^ 2) (map2 (-) a b)) = (\<Sum>r<length a. (a ! r - b ! r) ^ 2)"
proof (induction a b rule: list_induct2)
  case Nil
  show ?case by simp
next
  case (Cons x xs y ys)
  have "(\<Sum>r<Suc (length xs). ((x # xs) ! r - (y # ys) ! r) ^ 2)
          = (x - y) ^ 2 + (\<Sum>r<length xs. (xs ! r - ys ! r) ^ 2)"
    by (simp add: sum.lessThan_Suc_shift del: sum.lessThan_Suc)
  with Cons.IH show ?case by simp
qed

text \<open>
  Claim C9. For two vectors of the same size \<open>N \<ge> 1\<close>, \<open>rmse pred target\<close> is the square
  root of the sum of the squared differences \<open>target - pred\<close> divided by \<open>N\<close>; it is zero
  on equal arguments and does not depend on the order of its arguments. The function
  is a pure one: its value is all it produces.
\<close>

theorem rmse_formula_zero_symmetric:
  assumes "length pred = length target" and "1 \<le> length target"
  shows "rmse pred target =
           Inr (Finite (sqrt ((\<Sum>r<length target. (target ! r - pred ! r) ^ 2) / real (length target))))
         \<and> rmse target target = Inr (Finite 0)
         \<and> rmse pred target = rmse target pred"
proof -
  have len: "length target \<noteq> 0" "length pred \<noteq> 0"
    using assms by auto
  have formula: "rmse pred target =
           Inr (Finite (sqrt ((\<Sum>r<length target. (target ! r - pred ! r) ^ 2) / real (length target))))"
    using rmse_same_length [OF assms(1) len(1)] sum_list_sq_diff_nth [OF assms(1) [symmetric]]
    by simp
  have zero: "rmse target target = Inr (Finite 0)"
    using rmse_same_length [OF refl len(1)] sum_list_sq_diff_self [of target]
    by simp
  have symm: "rmse pred target = rmse target pred"
    using rmse_same_length [OF assms(1) len(1)] rmse_same_length [OF assms(1) [symmetric] len(2)]
      sum_list_sq_diff_swap [OF assms(1)] assms(1)
    by simp
  from formula zero symm show ?thesis by blast
qed

theorem rmse_formula_zero_symmetric_witness:
  "rmse [1, 2] [4, 6] =
     Inr (Finite (sqrt ((\<Sum>r<length [4, 6 :: real]. ([4, 6] ! r - [1, 2] ! r) ^ 2) / real (length [4, 6 :: real]))))
   \<and> rmse [4, 6] [4, 6] = Inr (Finite 0)
   \<and> rmse [1, 2] [4, 6] = rmse [4, 6] [1, 2]"
proof -
  have h1: "length [1, 2 :: real] = length [4, 6 :: real]" by simp
  have h2: "1 \<le> length [4, 6 :: real]" by simp
  show ?thesis
    by (rule rmse_formula_zero_symmetric [OF h1 h2])
qed

section \<open>Properties of the column sum\<close>

lemma upt_below: "set [0..<n] \<subseteq> {..<n}"
  by auto

lemma length_sumcol_loop:
  "length s = shape0 F \<Longrightarrow> wf_matrix F \<Longrightarrow> set is \<subseteq> {..<shape1 F} \<Longrightarrow> length (sumcol_loop F j is s) = shape0 F"
  by (induction "is" arbitrary: s) (auto simp: wf_matrix_def list_all_iff column_def shape1_def)

lemma sumcol_loop_nth:
  assumes "wf_matrix F" and "set is \<subseteq> {..<shape1 F}" and "length s = shape0 F" and "r < shape0 F"
  shows "sumcol_loop F j is s ! r = s ! r + (\<Sum>i\<leftarrow>filter (\<lambda>i. int i \<noteq> j) is. entry F r i)"
  using assms
proof (induction "is" arbitrary: s)
  case Nil
  then show ?case by simp
next
  case (Cons i "is")
  have i: "i < length (cols F)" using Cons.prems(2) by (simp add: shape1_def)
  have lc: "length (column F i) = shape0 F"
    using Cons.prems(1) i by (simp add: wf_matrix_def list_all_iff column_def)
  show ?case
  proof (cases "int i = j")
    case True
    with Cons show ?thesis by simp
  next
    case False
    have "sumcol_loop F j (i # is) s ! r = sumcol_loop F j is (map2 (+) s (column F i)) ! r"
      using False by simp
    also have "\<dots> = map2 (+) s (column F i) ! r + (\<Sum>i\<leftarrow>filter (\<lambda>i. int i \<noteq> j) is. entry F r i)"
      using Cons.prems lc by (intro Cons.IH) simp_all
    also have "map2 (+) s (column F i) ! r = s ! r + entry F r i"
      using Cons.prems lc by (simp add: entry_def column_def)
    finally show ?thesis using False by simp
  qed
qed

lemma sumcol_nth:
  assumes "wf_matrix F" and "r < shape0 F"
  shows "sumcol F j ! r = (\<Sum>i\<in>{i. i < shape1 F \<and> int i \<noteq> j}. entry F r i)"
proof -
  have "sumcol F j ! r = (\<Sum>i\<leftarrow>filter (\<lambda>i. int i \<noteq> j) [0..<shape1 F]. entry F r i)"
    using sumcol_loop_nth [OF assms(1) upt_below, of "replicate (shape0 F) 0" r j] assms(2)
    by (simp add: sumcol_def)
  also have "\<dots> = sum (\<lambda>i. entry F r i) (set (filter (\<lambda>i. int i \<noteq> j) [0..<shape1 F]))"
    by (rule sum_list_distinct_conv_sum_set) simp
  also have "set (filter (\<lambda>i. int i \<noteq> j) [0..<shape1 F]) = {i. i < shape1 F \<and> int i \<noteq> j}"
    by auto
  finally show ?thesis .
qed

lemma length_sumcol: "wf_matrix F \<Longrightarrow> length (sumcol F j) = shape0 F"
  using length_sumcol_loop [OF _ _ upt_below, of "replicate (shape0 F) 0" F j]
  by (simp add: sumcol_def)

lemma sumcol_eq:
  assumes "wf_matrix F"
  shows "sumcol F j = map (\<lambda>r. \<Sum>i\<in>{i. i < shape1 F \<and> int i \<noteq> j}. entry F r i) [0..<shape0 F]"
  using assms by (intro nth_equalityI) (simp_all add: length_sumcol sumcol_nth)

text \<open>
  Claim C2. For a matrix \<open>F\<close> of \<open>M\<close> columns: with \<open>0 \<le> j < M\<close>, \<open>sumcol F j\<close> is, row by
  row, the sum of all columns except column \<open>j\<close>; with \<open>j \<ge> M\<close> it is the sum of all \<open>M\<close>
  columns. Hence the residual \<open>vect\<close> of the cycle loop for combination \<open>i\<close> is \<open>y_train\<close>
  minus the sum of all the components other than \<open>i\<close>.
\<close>

theorem sumcol_excludes_only_j:
  assumes "wf_matrix F"
  shows "(0 \<le> j \<and> j < int (shape1 F) \<longrightarrow>
            sumcol F j = map (\<lambda>r. \<Sum>i\<in>{..<shape1 F} - {nat j}. entry F r i) [0..<shape0 F])
       \<and> (int (shape1 F) \<le> j \<longrightarrow>
            sumcol F j = map (\<lambda>r. \<Sum>i<shape1 F. entry F r i) [0..<shape0 F])
       \<and> (i < shape1 F \<and> length y_train = shape0 F \<longrightarrow>
            residual y_train F i =
              Inr (map (\<lambda>r. y_train ! r - (\<Sum>c\<in>{..<shape1 F} - {i}. entry F r c)) [0..<shape0 F]))"
proof (intro conjI impI)
  assume j: "0 \<le> j \<and> j < int (shape1 F)"
  have "{i. i < shape1 F \<and> int i \<noteq> j} = {..<shape1 F} - {nat j}"
    using j by auto
  then show "sumcol F j = map (\<lambda>r. \<Sum>i\<in>{..<shape1 F} - {nat j}. entry F r i) [0..<shape0 F]"
    using sumcol_eq [OF assms, of j] by simp
next
  assume j: "int (shape1 F) \<le> j"
  have "{i. i < shape1 F \<and> int i \<noteq> j} = {..<shape1 F}"
    using j by auto
  then show "sumcol F j = map (\<lambda>r. \<Sum>i<shape1 F. entry F r i) [0..<shape0 F]"
    using sumcol_eq [OF assms, of j] by simp
next
  assume h: "i < shape1 F \<and> length y_train = shape0 F"
  have e: "{c. c < shape1 F \<and> c \<noteq> i} = {..<shape1 F} - {i}"
    by auto
  have "residual y_train F i = Inr (map2 (-) y_train (sumcol F (int i)))"
    using h assms by (simp add: residual_def np_binop_same_length length_sumcol)
  also have "map2 (-) y_train (sumcol F (int i))
      = map (\<lambda>r. y_train ! r - (\<Sum>c\<in>{..<shape1 F} - {i}. entry F r c)) [0..<shape0 F]"
    using h assms by (intro nth_equalityI) (simp_all add: length_sumcol sumcol_nth e)
  finally show "residual y_train F i =
              Inr (map (\<lambda>r. y_train ! r - (\<Sum>c\<in>{..<shape1 F} - {i}. entry F r c)) [0..<shape0 F])" .
qed

theorem sumcol_excludes_only_j_witness:
  "wf_matrix example_matrix
   \<and> sumcol example_matrix 1
       = map (\<lambda>r. \<Sum>i\<in>{..<shape1 example_matrix} - {nat 1}. entry example_matrix r i)
           [0..<shape0 example_matrix]
   \<and> sumcol example_matrix 3
       = map (\<lambda>r. \<Sum>i<shape1 example_matrix. entry example_matrix r i) [0..<shape0 example_matrix]
   \<and> residual [5, 7] example_matrix 2
       = Inr (map (\<lambda>r. [5, 7] ! r - (\<Sum>c\<in>{..<shape1 example_matrix} - {2}. entry example_matrix r c))
           [0..<shape0 example_matrix])"
proof -
  have wf: "wf_matrix example_matrix"
    by (simp add: wf_matrix_def example_matrix_def)
  have inside: "0 \<le> (1::int) \<and> 1 < int (shape1 example_matrix)"
    by (simp add: shape1_def example_matrix_def)
  have beyond: "int (shape1 example_matrix) \<le> 3"
    by (simp add: shape1_def example_matrix_def)
  have res: "2 < shape1 example_matrix \<and> length [5, 7 :: real] = shape0 example_matrix"
    by (simp add: shape1_def example_matrix_def)
  show ?thesis
    using wf inside beyond res
      sumcol_excludes_only_j [OF wf, of 1 2 "[5, 7]"]
      sumcol_excludes_only_j [OF wf, of 3 2 "[5, 7]"]
    by blast
qed

section \<open>The uniform initialisation\<close>

lemma entry_full: "r < N \<Longrightarrow> i < M \<Longrightarrow> entry (full N M x) r i = x"
  by (simp add: entry_def full_def)

text \<open>
  In the arithmetic of the real numbers the uniform split is exact: every cell is
  \<open>mean y_train / M\<close> and every row sums to \<open>mean y_train\<close>.
\<close>

lemma init_naive_exact_arithmetic:
  assumes "0 < M"
  shows "init_naive N M (mean y_train) = Inr (full N M (mean y_train / real M))
       \<and> shape0 (full N M (mean y_train / real M)) = N
       \<and> shape1 (full N M (mean y_train / real M)) = M
       \<and> (\<forall>r<N. \<forall>i<M. entry (full N M (mean y_train / real M)) r i = mean y_train / real M)
       \<and> (\<forall>r<N. (\<Sum>i<M. entry (full N M (mean y_train / real M)) r i) = mean y_train)"
proof (intro conjI allI impI)
  show "init_naive N M (mean y_train) = Inr (full N M (mean y_train / real M))"
    using assms by (simp add: init_naive_def)
  show "shape0 (full N M (mean y_train / real M)) = N"
    by (simp add: full_def)
  show "shape1 (full N M (mean y_train / real M)) = M"
    by (simp add: full_def shape1_def)
next
  fix r i
  assume "r < N" "i < M"
  then show "entry (full N M (mean y_train / real M)) r i = mean y_train / real M"
    by (rule entry_full)
next
  fix r
  assume r: "r < N"
  have "(\<Sum>i<M. entry (full N M (mean y_train / real M)) r i) = (\<Sum>i<M. mean y_train / real M)"
    using r by (intro sum.cong) (simp_all add: entry_full)
  also have "\<dots> = mean y_train"
    using assms by simp
  finally show "(\<Sum>i<M. entry (full N M (mean y_train / real M)) r i) = mean y_train" .
qed

lemma init_naive_float64_fails:
  "(init_naive_float64 N M mu = Inl e) = (init_naive N M mu = Inl e)"
  by (simp add: init_naive_float64_def init_naive_def)

subsection \<open>Rounding\<close>

text \<open>
  One rounding moves a number by at most \<open>1 / 2 ^ 53\<close> of its size, and a number whose
  significand is known is rounded by rounding that significand.
\<close>

lemma round_half_even_close: "\<bar>real_of_int (round_half_even x) - x\<bar> \<le> 1 / 2"
proof -
  have "real_of_int \<lfloor>x\<rfloor> \<le> x" and "x < real_of_int \<lfloor>x\<rfloor> + 1"
    by linarith+
  then show ?thesis
    by (auto simp: round_half_even_def)
qed

lemma float64_error: "\<bar>float64 x - x\<bar> \<le> \<bar>x\<bar> / 2 ^ 53"
proof (cases "x = 0")
  case True
  then show ?thesis by (simp add: float64_def)
next
  case False
  define e where "e = \<lfloor>log 2 \<bar>x\<bar>\<rfloor> - 52"
  define s :: real where "s = 2 powr of_int e"
  have s: "0 < s"
    by (simp add: s_def)
  have fl: "float64 x = real_of_int (round_half_even (x / s)) * s"
    using False by (simp add: float64_def e_def s_def)
  have "float64 x - x = (real_of_int (round_half_even (x / s)) - x / s) * s"
    using s by (simp add: fl algebra_simps)
  then have "\<bar>float64 x - x\<bar> = \<bar>real_of_int (round_half_even (x / s)) - x / s\<bar> * s"
    using s by (simp add: abs_mult)
  also have "\<dots> \<le> 1 / 2 * s"
    using round_half_even_close [of "x / s"] s by (intro mult_right_mono) simp_all
  also have "\<dots> \<le> \<bar>x\<bar> / 2 ^ 53"
  proof -
    have "2 powr (of_int \<lfloor>log 2 \<bar>x\<bar>\<rfloor>) \<le> 2 powr (log 2 \<bar>x\<bar>)"
      by (intro powr_mono) simp_all
    also have "\<dots> = \<bar>x\<bar>"
      using False by simp
    finally have low: "2 powr (of_int \<lfloor>log 2 \<bar>x\<bar>\<rfloor>) \<le> \<bar>x\<bar>" .
    have "s * 2 ^ 52 = 2 powr (of_int e) * 2 powr 52"
      by (simp add: s_def)
    also have "\<dots> = 2 powr (of_int \<lfloor>log 2 \<bar>x\<bar>\<rfloor>)"
      unfolding powr_add [symmetric] by (simp add: e_def)
    finally have "s * 2 ^ 52 \<le> \<bar>x\<bar>"
      using low by simp
    then show ?thesis
      by (simp add: field_simps)
  qed
  finally show ?thesis .
qed

lemma float64_dyadic:
  assumes "2 ^ 52 \<le> \<bar>x\<bar> * 2 ^ n" and "\<bar>x\<bar> * 2 ^ n < 2 ^ 53"
  shows "float64 x = real_of_int (round_half_even (x * 2 ^ n)) / 2 ^ n"
proof -
  have x: "x \<noteq> 0"
    using assms(1) by auto
  then have pos: "0 < \<bar>x\<bar>"
    by simp
  have "log 2 (\<bar>x\<bar> * 2 ^ n) = log 2 \<bar>x\<bar> + real n"
    using pos by (simp add: log_mult log_nat_power)
  moreover have "52 \<le> log 2 (\<bar>x\<bar> * 2 ^ n)"
    using assms(1) pos by (subst le_log_iff) (simp_all add: powr_realpow [symmetric])
  moreover have "log 2 (\<bar>x\<bar> * 2 ^ n) < 53"
    using assms(2) pos by (subst log_less_iff) (simp_all add: powr_realpow [symmetric])
  ultimately have "\<lfloor>log 2 \<bar>x\<bar>\<rfloor> = 52 - int n"
    by (intro floor_unique) simp_all
  then have e: "\<lfloor>log 2 \<bar>x\<bar>\<rfloor> - 52 = - int n"
    by simp
  have p: "2 powr (- real n) = 1 / 2 ^ n"
    by (simp add: powr_minus powr_realpow divide_inverse)
  have "float64 x = real_of_int (round_half_even (x / 2 powr (- real n))) * 2 powr (- real n)"
    using x by (simp add: float64_def e)
  then show ?thesis
    unfolding p by simp
qed

lemma float64_step:
  assumes "\<bar>a - x\<bar> \<le> ((1 + 1 / 2 ^ 53) ^ n - 1) * \<bar>x\<bar>"
  shows "\<bar>float64 a - x\<bar> \<le> ((1 + 1 / 2 ^ 53) ^ Suc n - 1) * \<bar>x\<bar>"
proof -
  define u :: real where "u = 1 / 2 ^ 53"
  have u: "0 \<le> u"
    by (simp add: u_def)
  have close: "\<bar>a - x\<bar> \<le> ((1 + u) ^ n - 1) * \<bar>x\<bar>"
    using assms by (simp add: u_def)
  have "\<bar>a\<bar> \<le> \<bar>x\<bar> + \<bar>a - x\<bar>"
    by simp
  also have "\<dots> \<le> \<bar>x\<bar> + ((1 + u) ^ n - 1) * \<bar>x\<bar>"
    using close by simp
  also have "\<dots> = (1 + u) ^ n * \<bar>x\<bar>"
    by (simp add: algebra_simps)
  finally have a: "\<bar>a\<bar> \<le> (1 + u) ^ n * \<bar>x\<bar>" .
  have "\<bar>float64 a - a\<bar> \<le> u * \<bar>a\<bar>"
    using float64_error [of a] by (simp add: u_def)
  also have "\<dots> \<le> u * ((1 + u) ^ n * \<bar>x\<bar>)"
    using a u by (rule mult_left_mono)
  finally have r: "\<bar>float64 a - a\<bar> \<le> u * ((1 + u) ^ n * \<bar>x\<bar>)" .
  have "\<bar>float64 a - x\<bar> \<le> \<bar>float64 a - a\<bar> + \<bar>a - x\<bar>"
    by simp
  also have "\<dots> \<le> u * ((1 + u) ^ n * \<bar>x\<bar>) + ((1 + u) ^ n - 1) * \<bar>x\<bar>"
    using r close by simp
  also have "\<dots> = ((1 + u) ^ Suc n - 1) * \<bar>x\<bar>"
    by (simp add: algebra_simps)
  finally show ?thesis
    by (simp add: u_def)
qed

lemma naive_cell_error:
  assumes "0 < M"
  shows "\<bar>naive_cell M mu - mu / real M\<bar> \<le> ((1 + 1 / 2 ^ 53) ^ 3 - 1) * \<bar>mu / real M\<bar>"
proof -
  have "\<bar>1 / real M - 1 / real M\<bar> \<le> ((1 + 1 / 2 ^ 53) ^ 0 - 1) * \<bar>1 / real M\<bar>"
    by simp
  then have "\<bar>float64 (1 / real M) - 1 / real M\<bar> \<le> ((1 + 1 / 2 ^ 53) ^ Suc 0 - 1) * \<bar>1 / real M\<bar>"
    by (rule float64_step)
  then have "\<bar>float64 (1 / real M) - 1 / real M\<bar> * \<bar>mu\<bar>
               \<le> ((1 + 1 / 2 ^ 53) ^ Suc 0 - 1) * \<bar>1 / real M\<bar> * \<bar>mu\<bar>"
    by (rule mult_right_mono) simp
  then have "\<bar>float64 (1 / real M) * mu - mu / real M\<bar>
               \<le> ((1 + 1 / 2 ^ 53) ^ Suc 0 - 1) * \<bar>mu / real M\<bar>"
    by (simp add: abs_mult [symmetric] algebra_simps)
  then have "\<bar>float64 (float64 (1 / real M) * mu) - mu / real M\<bar>
               \<le> ((1 + 1 / 2 ^ 53) ^ Suc (Suc 0) - 1) * \<bar>mu / real M\<bar>"
    by (rule float64_step)
  then have "\<bar>float64 (float64 (1 / real M) * mu) * 1 - mu / real M\<bar>
               \<le> ((1 + 1 / 2 ^ 53) ^ Suc (Suc 0) - 1) * \<bar>mu / real M\<bar>"
    by simp
  then have "\<bar>float64 (float64 (float64 (1 / real M) * mu) * 1) - mu / real M\<bar>
               \<le> ((1 + 1 / 2 ^ 53) ^ Suc (Suc (Suc 0)) - 1) * \<bar>mu / real M\<bar>"
    by (rule float64_step)
  then show ?thesis
    by (simp add: naive_cell_def numeral_3_eq_3)
qed

lemma float64_sum_error:
  "\<bar>((\<lambda>s. float64 (s + c)) ^^ k) 0 - real k * c\<bar> \<le> ((1 + 1 / 2 ^ 53) ^ k - 1) * (real k * \<bar>c\<bar>)"
proof (induction k)
  case 0
  show ?case by simp
next
  case (Suc k)
  define u :: real where "u = 1 / 2 ^ 53"
  define s where "s = ((\<lambda>s. float64 (s + c)) ^^ k) 0"
  define E where "E = ((1 + u) ^ k - 1) * (real k * \<bar>c\<bar>)"
  have u: "0 \<le> u"
    by (simp add: u_def)
  have p: "1 \<le> (1 + u) ^ k"
    using u by (intro one_le_power) simp
  have IH: "\<bar>s - real k * c\<bar> \<le> E"
    using Suc.IH by (simp add: s_def E_def u_def)
  have E: "E \<le> ((1 + u) ^ k - 1) * (real (Suc k) * \<bar>c\<bar>)"
    unfolding E_def using p by (intro mult_left_mono mult_right_mono) simp_all
  have "\<bar>s + c\<bar> \<le> \<bar>s - real k * c\<bar> + real (Suc k) * \<bar>c\<bar>"
  proof -
    have "s + c = (s - real k * c) + real (Suc k) * c"
      by (simp add: algebra_simps)
    then have "\<bar>s + c\<bar> \<le> \<bar>s - real k * c\<bar> + \<bar>real (Suc k) * c\<bar>"
      by (metis abs_triangle_ineq)
    then show ?thesis
      by (simp add: abs_mult)
  qed
  then have sc: "\<bar>s + c\<bar> \<le> E + real (Suc k) * \<bar>c\<bar>"
    using IH by linarith
  have "\<bar>float64 (s + c) - (s + c)\<bar> \<le> u * \<bar>s + c\<bar>"
    using float64_error [of "s + c"] by (simp add: u_def)
  also have "\<dots> \<le> u * (E + real (Suc k) * \<bar>c\<bar>)"
    using sc u by (rule mult_left_mono)
  finally have r: "\<bar>float64 (s + c) - (s + c)\<bar> \<le> u * (E + real (Suc k) * \<bar>c\<bar>)" .
  have "float64 (s + c) - real (Suc k) * c = (float64 (s + c) - (s + c)) + (s - real k * c)"
    by (simp add: algebra_simps)
  then have "\<bar>float64 (s + c) - real (Suc k) * c\<bar>
               \<le> \<bar>float64 (s + c) - (s + c)\<bar> + \<bar>s - real k * c\<bar>"
    by (metis abs_triangle_ineq)
  also have "\<dots> \<le> u * (E + real (Suc k) * \<bar>c\<bar>) + E"
    using r IH by linarith
  also have "\<dots> = (1 + u) * E + u * (real (Suc k) * \<bar>c\<bar>)"
    by (simp add: algebra_simps)
  also have "\<dots> \<le> (1 + u) * (((1 + u) ^ k - 1) * (real (Suc k) * \<bar>c\<bar>)) + u * (real (Suc k) * \<bar>c\<bar>)"
    using E u by (intro add_right_mono mult_left_mono) simp_all
  also have "\<dots> = ((1 + u) ^ Suc k - 1) * (real (Suc k) * \<bar>c\<bar>)"
    by (simp add: algebra_simps)
  finally show ?case
    by (simp add: s_def u_def)
qed

lemma column_full: "i < M \<Longrightarrow> column (full N M c) i = replicate N c"
  by (simp add: column_def full_def)

lemma map2_replicate: "map2 f (replicate N a) (replicate N b) = replicate N (f a b)"
  by (induction N) simp_all

lemma sumcol_loop_float64_full:
  assumes "\<forall>i\<in>set is. i < M \<and> int i \<noteq> j"
  shows "sumcol_loop_float64 (full N M c) j is (replicate N s)
           = replicate N (((\<lambda>s. float64 (s + c)) ^^ length is) s)"
  using assms
proof (induction "is" arbitrary: s)
  case Nil
  show ?case by simp
next
  case (Cons i "is")
  then have i: "i < M" "int i \<noteq> j" and rest: "\<forall>i\<in>set is. i < M \<and> int i \<noteq> j"
    by simp_all
  have e: "((\<lambda>s. float64 (s + c)) ^^ length (i # is)) s
             = ((\<lambda>s. float64 (s + c)) ^^ length is) (float64 (s + c))"
    using funpow_swap1 [of "\<lambda>s. float64 (s + c)" "length is" s] by simp
  have "sumcol_loop_float64 (full N M c) j (i # is) (replicate N s)
          = sumcol_loop_float64 (full N M c) j is (replicate N (float64 (s + c)))"
    using i by (simp add: column_full map2_replicate)
  then show ?case
    unfolding e using Cons.IH [OF rest, of "float64 (s + c)"] by simp
qed

lemma sumcol_float64_full:
  assumes "int M \<le> j"
  shows "sumcol_float64 (full N M c) j = replicate N (((\<lambda>s. float64 (s + c)) ^^ M) 0)"
proof -
  have "\<forall>i\<in>set [0..<M]. i < M \<and> int i \<noteq> j"
    using assms by auto
  from sumcol_loop_float64_full [OF this, of N c 0] show ?thesis
    by (simp add: sumcol_float64_def full_def shape1_def)
qed

text \<open>
  The ten additions of \<open>0.1\<close>, the nearest binary64 number to \<open>1 / 10\<close>, and the cell
  for fifteen combinations and a mean of \<open>0.45\<close>.
\<close>

lemma tenth_cell: "naive_cell 10 1 = 7205759403792794 / 2 ^ 56"
proof -
  have a: "float64 (1 / real 10) = 7205759403792794 / 2 ^ 56"
    by (subst float64_dyadic [of _ 56]) (simp_all add: round_half_even_def)
  have b: "float64 (7205759403792794 / 2 ^ 56 * 1) = 7205759403792794 / 2 ^ 56"
    by (subst float64_dyadic [of _ 56]) (simp_all add: round_half_even_def)
  show ?thesis
    unfolding naive_cell_def a b ..
qed

lemma tenth_step_1:
  "float64 (0 + 7205759403792794 / 2 ^ 56) = 7205759403792794 / 2 ^ 56"
  by (subst float64_dyadic [of _ 56]) (simp_all add: round_half_even_def)

lemma tenth_step_2:
  "float64 (7205759403792794 / 2 ^ 56 + 7205759403792794 / 2 ^ 56) = 7205759403792794 / 2 ^ 55"
  by (subst float64_dyadic [of _ 55]) (simp_all add: round_half_even_def)

lemma tenth_step_3:
  "float64 (7205759403792794 / 2 ^ 55 + 7205759403792794 / 2 ^ 56) = 5404319552844596 / 2 ^ 54"
  by (subst float64_dyadic [of _ 54]) (simp_all add: round_half_even_def)

lemma tenth_step_4:
  "float64 (5404319552844596 / 2 ^ 54 + 7205759403792794 / 2 ^ 56) = 7205759403792794 / 2 ^ 54"
  by (subst float64_dyadic [of _ 54]) (simp_all add: round_half_even_def)

lemma tenth_step_5:
  "float64 (7205759403792794 / 2 ^ 54 + 7205759403792794 / 2 ^ 56) = 4503599627370496 / 2 ^ 53"
  by (subst float64_dyadic [of _ 53]) (simp_all add: round_half_even_def)

lemma tenth_step_6:
  "float64 (4503599627370496 / 2 ^ 53 + 7205759403792794 / 2 ^ 56) = 5404319552844595 / 2 ^ 53"
  by (subst float64_dyadic [of _ 53]) (simp_all add: round_half_even_def)

lemma tenth_step_7:
  "float64 (5404319552844595 / 2 ^ 53 + 7205759403792794 / 2 ^ 56) = 6305039478318694 / 2 ^ 53"
  by (subst float64_dyadic [of _ 53]) (simp_all add: round_half_even_def)

lemma tenth_step_8:
  "float64 (6305039478318694 / 2 ^ 53 + 7205759403792794 / 2 ^ 56) = 7205759403792793 / 2 ^ 53"
  by (subst float64_dyadic [of _ 53]) (simp_all add: round_half_even_def)

lemma tenth_step_9:
  "float64 (7205759403792793 / 2 ^ 53 + 7205759403792794 / 2 ^ 56) = 8106479329266892 / 2 ^ 53"
  by (subst float64_dyadic [of _ 53]) (simp_all add: round_half_even_def)

lemma tenth_step_10:
  "float64 (8106479329266892 / 2 ^ 53 + 7205759403792794 / 2 ^ 56) = 9007199254740991 / 2 ^ 53"
  by (subst float64_dyadic [of _ 53]) (simp_all add: round_half_even_def)

lemma ten_times: "(10::nat) = Suc (Suc (Suc (Suc (Suc (Suc (Suc (Suc (Suc (Suc 0)))))))))"
  by simp

lemma tenth_sum:
  "((\<lambda>s. float64 (s + 7205759403792794 / 2 ^ 56)) ^^ 10) 0 = 9007199254740991 / 2 ^ 53"
  unfolding ten_times
  by (simp only: funpow.simps comp_apply id_apply tenth_step_1 tenth_step_2 tenth_step_3 tenth_step_4 tenth_step_5 tenth_step_6 tenth_step_7 tenth_step_8 tenth_step_9 tenth_step_10)

lemma fifteenth_cell: "naive_cell 15 (8106479329266893 / 2 ^ 54) = 8646911284551352 / 2 ^ 58"
proof -
  have a: "float64 (1 / real 15) = 4803839602528529 / 2 ^ 56"
    by (subst float64_dyadic [of _ 56]) (simp_all add: round_half_even_def)
  have b: "float64 (4803839602528529 / 2 ^ 56 * (8106479329266893 / 2 ^ 54)) = 8646911284551352 / 2 ^ 58"
    by (subst float64_dyadic [of _ 58]) (simp_all add: round_half_even_def)
  have c: "float64 (8646911284551352 / 2 ^ 58 * 1) = 8646911284551352 / 2 ^ 58"
    by (subst float64_dyadic [of _ 58]) (simp_all add: round_half_even_def)
  show ?thesis
    unfolding naive_cell_def a b c ..
qed

lemma fifteenth_quotient: "float64 (8106479329266893 / 2 ^ 54 / real 15) = 8646911284551353 / 2 ^ 58"
  by (subst float64_dyadic [of _ 58]) (simp_all add: round_half_even_def)

text \<open>
  Claim C8, as the program computes it. With \<^verbatim>\<open>init = 'naive'\<close> and \<open>M > 0\<close> combinations
  the initialised matrix has \<open>N\<close> rows and \<open>M\<close> columns and every cell of it holds the same
  number, the rounded products of line 96, which is \<open>mean y_train / M\<close> up to a relative
  error of \<open>(1 + 1 / 2 ^ 53) ^ 3 - 1\<close>. The sum of every row, as \<^verbatim>\<open>sumcol\<close> computes it with an
  index \<open>j\<close> that is no column, is \<open>mean y_train\<close> up to a relative error of
  \<open>(1 + 1 / 2 ^ 53) ^ (M + 3) - 1\<close>: close to the mean, and not always equal to it.
\<close>

theorem init_naive_float64_uniform_split:
  assumes "0 < M" and "int M \<le> j"
  shows "init_naive_float64 N M mu = Inr (full N M (naive_cell M mu))
       \<and> shape0 (full N M (naive_cell M mu)) = N
       \<and> shape1 (full N M (naive_cell M mu)) = M
       \<and> (\<forall>r<N. \<forall>i<M. entry (full N M (naive_cell M mu)) r i = naive_cell M mu)
       \<and> \<bar>naive_cell M mu - mu / real M\<bar> \<le> ((1 + 1 / 2 ^ 53) ^ 3 - 1) * \<bar>mu / real M\<bar>
       \<and> (\<forall>r<N. \<bar>sumcol_float64 (full N M (naive_cell M mu)) j ! r - mu\<bar>
                   \<le> ((1 + 1 / 2 ^ 53) ^ (M + 3) - 1) * \<bar>mu\<bar>)"
proof -
  define u :: real where "u = 1 / 2 ^ 53"
  define c where "c = naive_cell M mu"
  define s where "s = ((\<lambda>s. float64 (s + c)) ^^ M) 0"
  have M: "0 < real M"
    using assms(1) by simp
  have p: "1 \<le> (1 + u) ^ M"
    by (intro one_le_power) (simp add: u_def)
  have cell: "\<bar>c - mu / real M\<bar> \<le> ((1 + u) ^ 3 - 1) * \<bar>mu / real M\<bar>"
    unfolding c_def u_def using assms(1) by (rule naive_cell_error)
  then have "real M * \<bar>c - mu / real M\<bar> \<le> real M * (((1 + u) ^ 3 - 1) * \<bar>mu / real M\<bar>)"
    using M by (intro mult_left_mono) simp_all
  moreover have "real M * \<bar>c - mu / real M\<bar> = \<bar>real M * c - mu\<bar>"
  proof -
    have "real M * \<bar>c - mu / real M\<bar> = \<bar>real M * (c - mu / real M)\<bar>"
      by (simp add: abs_mult)
    also have "real M * (c - mu / real M) = real M * c - mu"
      using M by (simp add: right_diff_distrib)
    finally show ?thesis .
  qed
  moreover have "real M * (((1 + u) ^ 3 - 1) * \<bar>mu / real M\<bar>) = ((1 + u) ^ 3 - 1) * \<bar>mu\<bar>"
    using M by (simp add: abs_mult)
  ultimately have whole: "\<bar>real M * c - mu\<bar> \<le> ((1 + u) ^ 3 - 1) * \<bar>mu\<bar>"
    by simp
  have "real M * \<bar>c\<bar> = \<bar>real M * c\<bar>"
    by (simp add: abs_mult)
  also have "\<dots> \<le> \<bar>mu\<bar> + \<bar>real M * c - mu\<bar>"
    by simp
  also have "\<dots> \<le> \<bar>mu\<bar> + ((1 + u) ^ 3 - 1) * \<bar>mu\<bar>"
    using whole by simp
  also have "\<dots> = (1 + u) ^ 3 * \<bar>mu\<bar>"
    by (simp add: algebra_simps)
  finally have size: "real M * \<bar>c\<bar> \<le> (1 + u) ^ 3 * \<bar>mu\<bar>" .
  have "\<bar>s - real M * c\<bar> \<le> ((1 + u) ^ M - 1) * (real M * \<bar>c\<bar>)"
    unfolding s_def u_def by (rule float64_sum_error)
  also have "\<dots> \<le> ((1 + u) ^ M - 1) * ((1 + u) ^ 3 * \<bar>mu\<bar>)"
    using size p by (intro mult_left_mono) simp_all
  finally have acc: "\<bar>s - real M * c\<bar> \<le> ((1 + u) ^ M - 1) * ((1 + u) ^ 3 * \<bar>mu\<bar>)" .
  have "\<bar>s - mu\<bar> \<le> \<bar>s - real M * c\<bar> + \<bar>real M * c - mu\<bar>"
    by simp
  also have "\<dots> \<le> ((1 + u) ^ M - 1) * ((1 + u) ^ 3 * \<bar>mu\<bar>) + ((1 + u) ^ 3 - 1) * \<bar>mu\<bar>"
    using acc whole by simp
  also have "\<dots> = ((1 + u) ^ (M + 3) - 1) * \<bar>mu\<bar>"
    by (simp add: power_add algebra_simps)
  finally have total: "\<bar>s - mu\<bar> \<le> ((1 + u) ^ (M + 3) - 1) * \<bar>mu\<bar>" .
  have rows: "sumcol_float64 (full N M c) j = replicate N s"
    unfolding s_def using assms(2) by (rule sumcol_float64_full)
  have a: "init_naive_float64 N M mu = Inr (full N M c)"
    using assms(1) by (simp add: init_naive_float64_def c_def)
  have b: "shape0 (full N M c) = N" "shape1 (full N M c) = M"
    by (simp_all add: full_def shape1_def)
  have d: "\<forall>r<N. \<forall>i<M. entry (full N M c) r i = c"
    by (simp add: entry_full)
  have e: "\<forall>r<N. \<bar>sumcol_float64 (full N M c) j ! r - mu\<bar> \<le> ((1 + u) ^ (M + 3) - 1) * \<bar>mu\<bar>"
    using total by (simp add: rows)
  from a b d cell e show ?thesis
    unfolding c_def u_def by blast
qed

theorem init_naive_float64_uniform_split_witness:
  "init_naive_float64 2 3 (mean [1, 2]) = Inr (full 2 3 (naive_cell 3 (mean [1, 2])))
   \<and> shape0 (full 2 3 (naive_cell 3 (mean [1, 2]))) = 2
   \<and> shape1 (full 2 3 (naive_cell 3 (mean [1, 2]))) = 3
   \<and> entry (full 2 3 (naive_cell 3 (mean [1, 2]))) 1 2 = naive_cell 3 (mean [1, 2])
   \<and> \<bar>naive_cell 3 (mean [1, 2]) - mean [1, 2] / real 3\<bar>
       \<le> ((1 + 1 / 2 ^ 53) ^ 3 - 1) * \<bar>mean [1, 2] / real 3\<bar>
   \<and> \<bar>sumcol_float64 (full 2 3 (naive_cell 3 (mean [1, 2]))) 10000 ! 1 - mean [1, 2]\<bar>
       \<le> ((1 + 1 / 2 ^ 53) ^ (3 + 3) - 1) * \<bar>mean [1, 2]\<bar>"
proof -
  have h: "0 < (3::nat)" by simp
  have j: "int 3 \<le> 10000" by simp
  have r: "(1::nat) < 2" and i: "(2::nat) < 3" by simp_all
  from init_naive_float64_uniform_split [OF h j, of 2 "mean [1, 2]"] r i show ?thesis
    by blast
qed

text \<open>
  For ten combinations and the one target \<open>1.0\<close> every cell is \<open>0.1\<close> and the row sums to
  \<open>1 - 1 / 2 ^ 53\<close>, which is not the mean. For fifteen combinations and a mean of \<open>0.45\<close>
  the cell \<^verbatim>\<open>(1 / 15) * mean\<close> is not the quotient \<^verbatim>\<open>mean / 15\<close>.
\<close>

theorem naive_split_counterexample:
  "init_naive_float64 1 10 (mean [1]) = Inr (full 1 10 (7205759403792794 / 2 ^ 56))
   \<and> sumcol_float64 (full 1 10 (7205759403792794 / 2 ^ 56)) 10000 = [9007199254740991 / 2 ^ 53]
   \<and> (9007199254740991 / 2 ^ 53 :: real) \<noteq> mean [1]
   \<and> init_naive_float64 1 15 (8106479329266893 / 2 ^ 54)
        = Inr (full 1 15 (8646911284551352 / 2 ^ 58))
   \<and> float64 (8106479329266893 / 2 ^ 54 / real 15) = 8646911284551353 / 2 ^ 58
   \<and> (8646911284551352 / 2 ^ 58 :: real) \<noteq> 8646911284551353 / 2 ^ 58"
proof -
  have m: "mean [1] = 1"
    by (simp add: mean_def)
  have a: "init_naive_float64 1 10 (mean [1]) = Inr (full 1 10 (7205759403792794 / 2 ^ 56))"
    unfolding m init_naive_float64_def tenth_cell by simp
  have "int 10 \<le> 10000"
    by simp
  from sumcol_float64_full [OF this, of 1 "7205759403792794 / 2 ^ 56"]
  have b: "sumcol_float64 (full 1 10 (7205759403792794 / 2 ^ 56)) 10000 = [9007199254740991 / 2 ^ 53]"
    unfolding tenth_sum by simp
  have c: "(9007199254740991 / 2 ^ 53 :: real) \<noteq> mean [1]"
    unfolding m by simp
  have d: "init_naive_float64 1 15 (8106479329266893 / 2 ^ 54)
        = Inr (full 1 15 (8646911284551352 / 2 ^ 58))"
    unfolding init_naive_float64_def fifteenth_cell by simp
  have e: "(8646911284551352 / 2 ^ 58 :: real) \<noteq> 8646911284551353 / 2 ^ 58"
    by simp
  from a b c d fifteenth_quotient e show ?thesis
    by blast
qed

section \<open>Loops, regressors and the noise level\<close>

lemma bind_Inr_iff: "bind m f = Inr y \<longleftrightarrow> (\<exists>x. m = Inr x \<and> f x = Inr y)"
  by (cases m) (simp_all add: bind_def)

lemma bind_Inr [simp]: "bind (Inr x) f = f x"
  by (simp add: bind_def)

lemma bind_Inl [simp]: "bind (Inl e) f = Inl e"
  by (simp add: bind_def)

lemma for_each_append:
  "for_each (xs @ ys) body s = bind (for_each xs body s) (for_each ys body)"
  by (induction xs arbitrary: s) (simp_all split: sum.splits)

lemma for_each_prefix:
  assumes "for_each (xs @ ys) body s = Inr s'"
  shows "\<exists>t. for_each xs body s = Inr t \<and> for_each ys body t = Inr s'"
  using assms unfolding for_each_append bind_Inr_iff .

lemma cycles_reach_every_cycle:
  assumes "for_each [0..<n] body s = Inr s'" and "k < n"
  shows "\<exists>t. for_each [0..<Suc k] body s = Inr t \<and> for_each [Suc k..<n] body t = Inr s'"
proof -
  have "[0..<n] = [0..<Suc k] @ [Suc k..<n]"
    using upt_add_eq_append [of 0 "Suc k" "n - Suc k"] assms(2) by simp
  with assms(1) show ?thesis
    by (simp only: for_each_prefix)
qed

lemma for_each_preserves:
  assumes "for_each is body s = Inr s'"
    and "\<And>i t t'. i \<in> set is \<Longrightarrow> body i t = Inr t' \<Longrightarrow> f t' = f t"
  shows "f s' = f s"
  using assms
proof (induction "is" arbitrary: s)
  case Nil
  then show ?case by simp
next
  case (Cons i "is")
  from Cons.prems(1) obtain t where t: "body i s = Inr t" and rest: "for_each is body t = Inr s'"
    by (auto split: sum.splits)
  have "f s' = f t"
    using rest Cons.prems(2) by (intro Cons.IH) auto
  also have "f t = f s"
    using t Cons.prems(2) by auto
  finally show ?case .
qed

lemma update_component_GPR:
  assumes "update_component lib X_train y_train all_combos p m k i st = Inr st'"
  shows "\<exists>fitted. st' = st\<lparr>GPR := (GPR st)[i := (GPR st ! i)\<lparr>gpr_fitted := Some fitted\<rparr>],
                            component_function_train := component_function_train st'\<rparr>"
  using assms by (auto simp: update_component_def bind_Inr_iff item_def Let_def split: if_splits)

lemma map_gpr_alpha_update:
  "map gpr_alpha (gs[i := (gs ! i)\<lparr>gpr_fitted := x\<rparr>]) = map gpr_alpha gs"
proof (cases "i < length gs")
  case True
  then have "(map gpr_alpha gs)[i := gpr_alpha (gs ! i)] = map gpr_alpha gs"
    by (simp add: list_update_same_conv)
  then show ?thesis by (simp add: map_update)
next
  case False
  then show ?thesis by (simp add: list_update_beyond linorder_not_less)
qed

lemma update_component_alpha:
  assumes "update_component lib X_train y_train all_combos p m k i st = Inr st'"
  shows "(alpha_now st', map gpr_alpha (GPR st')) = (alpha_now st, map gpr_alpha (GPR st))"
proof -
  from update_component_GPR [OF assms] obtain fitted where
    "st' = st\<lparr>GPR := (GPR st)[i := (GPR st ! i)\<lparr>gpr_fitted := Some fitted\<rparr>],
              component_function_train := component_function_train st'\<rparr>" ..
  then have "alpha_now st' = alpha_now st"
    and "GPR st' = (GPR st)[i := (GPR st ! i)\<lparr>gpr_fitted := Some fitted\<rparr>]"
    by (metis train_state.select_convs(1) train_state.surjective train_state.update_convs(2,3),
        metis train_state.select_convs(2) train_state.surjective train_state.update_convs(2,3))
  then show ?thesis
    by (simp add: map_gpr_alpha_update)
qed

lemma cycle_alpha:
  assumes "cycle lib X_train y_train all_combos p m k st = Inr st'"
  shows "alpha_now st' = alpha_now (decay_alpha p (length all_combos) k st)"
    and "map gpr_alpha (GPR st') = map gpr_alpha (GPR (decay_alpha p (length all_combos) k st))"
proof -
  from assms obtain t e where
    t: "for_each [0..<length all_combos] (update_component lib X_train y_train all_combos p m k)
          (decay_alpha p (length all_combos) k st) = Inr t"
    and st': "st' = t\<lparr>rmse_train := rmse_train t @ [e]\<rparr>"
    by (auto simp: cycle_def bind_Inr_iff)
  have "(alpha_now t, map gpr_alpha (GPR t))
          = (alpha_now (decay_alpha p (length all_combos) k st),
             map gpr_alpha (GPR (decay_alpha p (length all_combos) k st)))"
    using t by (rule for_each_preserves) (rule update_component_alpha)
  with st' show "alpha_now st' = alpha_now (decay_alpha p (length all_combos) k st)"
    and "map gpr_alpha (GPR st') = map gpr_alpha (GPR (decay_alpha p (length all_combos) k st))"
    by simp_all
qed

lemma decay_alpha_yes:
  assumes "use_decay_alpha p = ''yes''"
  shows "alpha_now (decay_alpha p M k st) = (if 2 \<le> k \<and> k < 8 then alpha_now st * (1 / 10) else alpha_now st)"
    and "GPR (decay_alpha p M k st) =
           replicate M (GaussianProcessRegressor (length_scale p) (alpha_now (decay_alpha p M k st)) (optimizer p))"
  using assms by (simp_all add: decay_alpha_def)

lemma cycles_alpha_yes:
  assumes "use_decay_alpha p = ''yes''"
    and "for_each [0..<Suc k] (cycle lib X_train y_train all_combos p m) st0 = Inr st"
  shows "alpha_now st = alpha_now st0 * (1 / 10) ^ (min (Suc k) 8 - 2)
       \<and> map gpr_alpha (GPR st) = replicate (length all_combos) (alpha_now st0 * (1 / 10) ^ (min (Suc k) 8 - 2))"
  using assms(2)
proof (induction k arbitrary: st)
  case 0
  then have c: "cycle lib X_train y_train all_combos p m 0 st0 = Inr st"
    by (simp split: sum.splits)
  show ?case
    using cycle_alpha [OF c] decay_alpha_yes [OF assms(1), of "length all_combos" 0 st0]
    by (simp add: GaussianProcessRegressor_def)
next
  case (Suc k)
  have "for_each ([0..<Suc k] @ [Suc k]) (cycle lib X_train y_train all_combos p m) st0 = Inr st"
    using Suc.prems by simp
  then obtain t where
    t: "for_each [0..<Suc k] (cycle lib X_train y_train all_combos p m) st0 = Inr t"
    and c1: "for_each [Suc k] (cycle lib X_train y_train all_combos p m) t = Inr st"
    unfolding for_each_append bind_Inr_iff by blast
  from c1 have c: "cycle lib X_train y_train all_combos p m (Suc k) t = Inr st"
    by (simp split: sum.splits)
  have a: "alpha_now t = alpha_now st0 * (1 / 10) ^ (min (Suc k) 8 - 2)"
    using Suc.IH [OF t] by simp
  define n where "n = min (Suc k) 8 - 2"
  have d: "alpha_now (decay_alpha p (length all_combos) (Suc k) t)
             = alpha_now st0 * (1 / 10) ^ (min (Suc (Suc k)) 8 - 2)"
  proof (cases "2 \<le> Suc k \<and> Suc k < 8")
    case True
    then have e: "min (Suc (Suc k)) 8 - 2 = Suc n"
      unfolding n_def by auto
    have "alpha_now (decay_alpha p (length all_combos) (Suc k) t) = alpha_now t * (1 / 10)"
      using True decay_alpha_yes(1) [OF assms(1), of "length all_combos" "Suc k" t] by simp
    also have "\<dots> = alpha_now st0 * (1 / 10) ^ Suc n"
      unfolding a n_def [symmetric] by simp
    finally show ?thesis
      unfolding e .
  next
    case False
    then have e: "min (Suc (Suc k)) 8 - 2 = n"
      unfolding n_def by auto
    have "alpha_now (decay_alpha p (length all_combos) (Suc k) t) = alpha_now t"
      using False decay_alpha_yes(1) [OF assms(1), of "length all_combos" "Suc k" t] by auto
    then show ?thesis
      unfolding e a n_def [symmetric] .
  qed
  show ?case
    using cycle_alpha [OF c] decay_alpha_yes(2) [OF assms(1), of "length all_combos" "Suc k" t] d
    by (simp add: GaussianProcessRegressor_def)
qed


lemmas model_defs =
  RS_HDMR_GPR_def default_params_def example_frame_def labels_def combinations_def init_poly_def
  maxscaledowncycle_def cycle_def decay_alpha_def bound_def train_rmse_def full_def sumcol_def
  shape1_def scale_def rmse_def np_binop_def mean_def ypred_of_def error_bars_of_def
  init_naive_def update_component_def residual_def column_def set_column_def select_columns_def
  get_column_def stub_library_def ramp_def new_column_def test_component_def
  GaussianProcessRegressor_def init_poly_step_def poly1d_def initial_state_def item_def Let_def

lemmas upt_unfold = eval_nat_numeral upt_rec [of 0] upt_rec [of "Suc _"]

lemma example_four_cycles:
  "for_each [0..<Suc 3]
     (cycle stub_library example_frame [1, 3] [[0], [1]]
        (default_params\<lparr>order := 1, alpha := 1, use_decay_alpha := ''yes'', number_cycles := 4\<rparr>) 1)
     (initial_state
        (default_params\<lparr>order := 1, alpha := 1, use_decay_alpha := ''yes'', number_cycles := 4\<rparr>)
        2 (Some (full 2 2 1)))
   = Inr \<lparr>alpha_now = 1 / 100,
          GPR = [\<lparr>gpr_length_scale = 6 / 10, gpr_alpha = 1 / 100, gpr_optimizer = None, gpr_fitted = Some 1\<rparr>,
                 \<lparr>gpr_length_scale = 6 / 10, gpr_alpha = 1 / 100, gpr_optimizer = None, gpr_fitted = Some 1\<rparr>],
          component_function_train = Some \<lparr>shape0 = 2, cols = [[1, 1], [1, 1]]\<rparr>,
          rmse_train = [Finite 1, Finite 1, Finite 1, Finite 1]\<rparr>"
  by (simp add: model_defs upt_unfold)

text \<open>
  Claim C1, as the program has it. With \<^verbatim>\<open>use_decay_alpha = 'yes'\<close>, the noise level of
  the regressors of cycle \<open>k\<close> is the \<open>alpha\<close> of the call in the cycles 0 and 1; from cycle
  2 to cycle 7 every cycle multiplies the running level by 0.1 again, so that cycle \<open>k\<close>
  fits with \<open>alpha * 0.1 ^ (k - 1)\<close>; and every cycle from 8 on fits with \<open>alpha * 0.1 ^ 6\<close>.
  The state \<open>st\<close> is the one that the loop has reached at the end of cycle \<open>k\<close>; every
  run of more than \<open>k\<close> cycles that returns passes through it (\<open>cycles_reach_every_cycle\<close>).
\<close>

theorem noise_level_per_cycle:
  assumes "use_decay_alpha p = ''yes''"
    and "for_each [0..<Suc k] (cycle lib X_train y_train all_combos p m)
           (initial_state p (length all_combos) F0) = Inr st"
  shows "length (GPR st) = length all_combos
       \<and> (k < 2 \<longrightarrow> (\<forall>g\<in>set (GPR st). gpr_alpha g = alpha p))
       \<and> (2 \<le> k \<and> k < 8 \<longrightarrow> (\<forall>g\<in>set (GPR st). gpr_alpha g = alpha p * (1 / 10) ^ (k - 1)))
       \<and> (8 \<le> k \<longrightarrow> (\<forall>g\<in>set (GPR st). gpr_alpha g = alpha p * (1 / 10) ^ 6))"
proof -
  have a0: "alpha_now (initial_state p (length all_combos) F0 :: 'a train_state) = alpha p"
    by (simp add: initial_state_def)
  have m: "map gpr_alpha (GPR st) = replicate (length all_combos) (alpha p * (1 / 10) ^ (min (Suc k) 8 - 2))"
    using cycles_alpha_yes [OF assms] a0 by simp
  have len: "length (GPR st) = length all_combos"
    using arg_cong [OF m, of length] by simp
  have each: "gpr_alpha g = alpha p * (1 / 10) ^ (min (Suc k) 8 - 2)" if "g \<in> set (GPR st)" for g
  proof -
    from that have "gpr_alpha g \<in> set (map gpr_alpha (GPR st))"
      by simp
    then show ?thesis
      unfolding m by simp
  qed
  have e1: "min (Suc k) 8 - 2 = 0" if "k < 2"
    using that by auto
  have e2: "min (Suc k) 8 - 2 = k - 1" if "2 \<le> k \<and> k < 8"
    using that by auto
  have e3: "min (Suc k) 8 - 2 = 6" if "8 \<le> k"
    using that by auto
  show ?thesis
  proof (intro conjI impI ballI)
    show "length (GPR st) = length all_combos"
      by (rule len)
  next
    fix g
    assume "k < 2" and "g \<in> set (GPR st)"
    then show "gpr_alpha g = alpha p"
      using each [of g] e1 by simp
  next
    fix g
    assume "2 \<le> k \<and> k < 8" and "g \<in> set (GPR st)"
    then show "gpr_alpha g = alpha p * (1 / 10) ^ (k - 1)"
      using each [of g] e2 by simp
  next
    fix g
    assume "8 \<le> k" and "g \<in> set (GPR st)"
    then show "gpr_alpha g = alpha p * (1 / 10) ^ 6"
      using each [of g] e3 by simp
  qed
qed

theorem noise_level_per_cycle_witness:
  "length [\<lparr>gpr_length_scale = 6 / 10, gpr_alpha = 1 / 100, gpr_optimizer = None, gpr_fitted = Some (1::real)\<rparr>,
           \<lparr>gpr_length_scale = 6 / 10, gpr_alpha = 1 / 100, gpr_optimizer = None, gpr_fitted = Some 1\<rparr>]
     = length [[0], [1::nat]]
   \<and> gpr_alpha \<lparr>gpr_length_scale = 6 / 10, gpr_alpha = 1 / 100, gpr_optimizer = None, gpr_fitted = Some (1::real)\<rparr>
     = 1 * (1 / 10) ^ (3 - 1)"
proof -
  have yes: "use_decay_alpha
      (default_params\<lparr>order := 1, alpha := 1, use_decay_alpha := ''yes'', number_cycles := 4\<rparr>) = ''yes''"
    by simp
  have len: "length [[0], [1::nat]] = 2"
    by simp
  have k: "2 \<le> (3::nat) \<and> (3::nat) < 8"
    by simp
  show ?thesis
    using noise_level_per_cycle [OF yes, of 3 stub_library example_frame "[1, 3]" "[[0], [1]]" 1
        "Some (full 2 2 1)", unfolded len, OF example_four_cycles] k
    by simp
qed

theorem noise_level_third_cycle_counterexample:
  "RS_HDMR_GPR stub_library example_frame [1, 3] example_frame [1, 3]
     (default_params\<lparr>order := 1, alpha := 1, use_decay_alpha := ''yes'', number_cycles := 4\<rparr>)
   = Inr ([Finite 1, Finite 1, Finite 1, Finite 1], Finite 1,
        [\<lparr>gpr_length_scale = 6 / 10, gpr_alpha = 1 / 100, gpr_optimizer = None, gpr_fitted = Some 1\<rparr>,
         \<lparr>gpr_length_scale = 6 / 10, gpr_alpha = 1 / 100, gpr_optimizer = None, gpr_fitted = Some 1\<rparr>],
        [2, 2], [sqrt 2, sqrt 2])
   \<and> (1 / 100 :: real) \<noteq> 1 * (1 / 10)"
  by (simp add: model_defs upt_unfold)

lemma decay_alpha_no:
  "use_decay_alpha p \<noteq> ''yes'' \<Longrightarrow> decay_alpha p M k st = st"
  by (simp add: decay_alpha_def)

lemma cycles_alpha_no:
  assumes "use_decay_alpha p \<noteq> ''yes''"
    and "for_each ks (cycle lib X_train y_train all_combos p m) st = Inr st'"
  shows "(alpha_now st', map gpr_alpha (GPR st')) = (alpha_now st, map gpr_alpha (GPR st))"
  using assms(2)
proof (rule for_each_preserves)
  fix k t t'
  assume "cycle lib X_train y_train all_combos p m k t = Inr t'"
  from cycle_alpha [OF this] decay_alpha_no [OF assms(1), of "length all_combos" k t]
  show "(alpha_now t', map gpr_alpha (GPR t')) = (alpha_now t, map gpr_alpha (GPR t))"
    by simp
qed

text \<open>
  Claim C10. With \<^verbatim>\<open>use_decay_alpha = 'yes'\<close>, the start of every cycle \<open>k\<close>, whatever \<open>k\<close>
  is, replaces the list of regressors by \<open>M\<close> new ones, none of them fitted. With any
  other value, the start of a cycle leaves the regressors and the noise level as they
  are, a step of the loop refits the regressor of its combination in place and changes
  no other, and the noise level at the end of the run is the one of the start.
\<close>

theorem regressors_replaced_or_reused:
  "(use_decay_alpha p = ''yes'' \<longrightarrow>
      length (GPR (decay_alpha p M k st)) = M
      \<and> (\<forall>g\<in>set (GPR (decay_alpha p M k st)). gpr_fitted g = None))
   \<and> (use_decay_alpha p \<noteq> ''yes'' \<longrightarrow> decay_alpha p M k st = st)
   \<and> (update_component lib X_train y_train all_combos p m k i st = Inr st1 \<longrightarrow>
        (\<exists>fitted. GPR st1 = (GPR st)[i := (GPR st ! i)\<lparr>gpr_fitted := Some fitted\<rparr>])
        \<and> alpha_now st1 = alpha_now st)
   \<and> (use_decay_alpha p \<noteq> ''yes''
        \<and> for_each ks (cycle lib X_train y_train all_combos p m) st = Inr st' \<longrightarrow>
        alpha_now st' = alpha_now st
        \<and> length (GPR st') = length (GPR st)
        \<and> map gpr_alpha (GPR st') = map gpr_alpha (GPR st))"
proof (intro conjI impI)
  assume yes: "use_decay_alpha p = ''yes''"
  show "length (GPR (decay_alpha p M k st)) = M"
    unfolding decay_alpha_yes(2) [OF yes] by simp
  show "\<forall>g\<in>set (GPR (decay_alpha p M k st)). gpr_fitted g = None"
    unfolding decay_alpha_yes(2) [OF yes] by (simp add: GaussianProcessRegressor_def)
next
  assume "use_decay_alpha p \<noteq> ''yes''"
  then show "decay_alpha p M k st = st"
    by (rule decay_alpha_no)
next
  assume u: "update_component lib X_train y_train all_combos p m k i st = Inr st1"
  from update_component_GPR [OF u] obtain fitted where
    e: "st1 = st\<lparr>GPR := (GPR st)[i := (GPR st ! i)\<lparr>gpr_fitted := Some fitted\<rparr>],
              component_function_train := component_function_train st1\<rparr>" ..
  have "GPR st1 = (GPR st)[i := (GPR st ! i)\<lparr>gpr_fitted := Some fitted\<rparr>]"
    by (subst e) simp
  then show "\<exists>fitted. GPR st1 = (GPR st)[i := (GPR st ! i)\<lparr>gpr_fitted := Some fitted\<rparr>]" ..
  show "alpha_now st1 = alpha_now st"
    using update_component_alpha [OF u] by simp
next
  assume h: "use_decay_alpha p \<noteq> ''yes''
        \<and> for_each ks (cycle lib X_train y_train all_combos p m) st = Inr st'"
  then have eq: "(alpha_now st', map gpr_alpha (GPR st')) = (alpha_now st, map gpr_alpha (GPR st))"
    using cycles_alpha_no by blast
  then show "alpha_now st' = alpha_now st" and "map gpr_alpha (GPR st') = map gpr_alpha (GPR st)"
    by simp_all
  then show "length (GPR st') = length (GPR st)"
    using map_eq_imp_length_eq by blast
qed

lemma example_four_cycles_no_decay:
  "for_each [0..<Suc 3] (cycle stub_library example_frame [1, 3] [[0], [1]] example_params 1)
     (initial_state example_params 2 (Some (full 2 2 1))) = Inr example_state"
  by (simp add: model_defs upt_unfold example_params_def example_state_def)

lemma example_update:
  "update_component stub_library example_frame [1, 3] [[0], [1]] example_params 1 0 0
     (initial_state example_params 2 (Some (full 2 2 1)))
   = Inr \<lparr>alpha_now = 1,
          GPR = [\<lparr>gpr_length_scale = 6 / 10, gpr_alpha = 1, gpr_optimizer = None, gpr_fitted = Some 1\<rparr>,
                 \<lparr>gpr_length_scale = 6 / 10, gpr_alpha = 1, gpr_optimizer = None, gpr_fitted = None\<rparr>],
          component_function_train = Some \<lparr>shape0 = 2, cols = [[1, 1], [1, 1]]\<rparr>,
          rmse_train = []\<rparr>"
  by (simp add: model_defs upt_unfold example_params_def)

theorem regressors_replaced_or_reused_witness:
  "length (GPR (decay_alpha (example_params\<lparr>use_decay_alpha := ''yes''\<rparr>) 2 9 example_state)) = 2
   \<and> gpr_fitted (GPR (decay_alpha (example_params\<lparr>use_decay_alpha := ''yes''\<rparr>) 2 9 example_state) ! 0) = None
   \<and> decay_alpha example_params 2 9 example_state = example_state
   \<and> alpha_now example_state = alpha_now (initial_state example_params 2 (Some (full 2 2 1)) :: real train_state)
   \<and> map gpr_alpha (GPR example_state)
       = map gpr_alpha (GPR (initial_state example_params 2 (Some (full 2 2 1)) :: real train_state))
   \<and> (\<exists>fitted.
         [\<lparr>gpr_length_scale = 6 / 10, gpr_alpha = 1, gpr_optimizer = None, gpr_fitted = Some 1\<rparr>,
          \<lparr>gpr_length_scale = 6 / 10, gpr_alpha = 1, gpr_optimizer = None, gpr_fitted = None\<rparr>]
         = (GPR (initial_state example_params 2 (Some (full 2 2 1)) :: real train_state))
             [0 := (GPR (initial_state example_params 2 (Some (full 2 2 1))) ! 0)\<lparr>gpr_fitted := Some fitted\<rparr>])"
proof -
  have yes: "use_decay_alpha (example_params\<lparr>use_decay_alpha := ''yes''\<rparr>) = ''yes''"
    by simp
  have no: "use_decay_alpha example_params \<noteq> ''yes''"
    by (simp add: example_params_def default_params_def)
  note a = regressors_replaced_or_reused
    [of "example_params\<lparr>use_decay_alpha := ''yes''\<rparr>" 2 9 example_state
        stub_library example_frame "[1, 3]" "[[0], [1]]" 1 0 example_state "[]" example_state]
  note b = regressors_replaced_or_reused
    [of example_params 2 9 example_state
        stub_library example_frame "[1, 3]" "[[0], [1]]" 1 0 example_state "[]" example_state]
  note c = regressors_replaced_or_reused
    [of example_params 2 9 "initial_state example_params 2 (Some (full 2 2 1))"
        stub_library example_frame "[1, 3]" "[[0], [1]]" 1 0 _ "[0..<Suc 3]" example_state]
  have len: "length (GPR (decay_alpha (example_params\<lparr>use_decay_alpha := ''yes''\<rparr>) 2 9 example_state)) = 2"
    and all: "\<forall>g\<in>set (GPR (decay_alpha (example_params\<lparr>use_decay_alpha := ''yes''\<rparr>) 2 9 example_state)).
               gpr_fitted g = None"
    using a yes by blast+
  have "GPR (decay_alpha (example_params\<lparr>use_decay_alpha := ''yes''\<rparr>) 2 9 example_state) ! 0
          \<in> set (GPR (decay_alpha (example_params\<lparr>use_decay_alpha := ''yes''\<rparr>) 2 9 example_state))"
    using len by (intro nth_mem) simp
  with all have first: "gpr_fitted (GPR (decay_alpha (example_params\<lparr>use_decay_alpha := ''yes''\<rparr>) 2 9 example_state) ! 0) = None"
    by blast
  have same: "decay_alpha example_params 2 9 example_state = example_state"
    using b no by blast
  have run: "alpha_now example_state = alpha_now (initial_state example_params 2 (Some (full 2 2 1)) :: real train_state)
     \<and> map gpr_alpha (GPR example_state)
       = map gpr_alpha (GPR (initial_state example_params 2 (Some (full 2 2 1)) :: real train_state))"
    using c no example_four_cycles_no_decay by blast
  note d = regressors_replaced_or_reused
    [of example_params 2 0 "initial_state example_params 2 (Some (full 2 2 1))"
        stub_library example_frame "[1, 3]" "[[0], [1]]" 1 0 _ "[]" example_state]
  have step: "\<exists>fitted.
         [\<lparr>gpr_length_scale = 6 / 10, gpr_alpha = 1, gpr_optimizer = None, gpr_fitted = Some 1\<rparr>,
          \<lparr>gpr_length_scale = 6 / 10, gpr_alpha = 1, gpr_optimizer = None, gpr_fitted = None\<rparr>]
         = (GPR (initial_state example_params 2 (Some (full 2 2 1)) :: real train_state))
             [0 := (GPR (initial_state example_params 2 (Some (full 2 2 1))) ! 0)\<lparr>gpr_fitted := Some fitted\<rparr>]"
    using d example_update by fastforce
  from len first same run step show ?thesis
    by blast
qed

section \<open>The update of one component function\<close>

lemma wf_matrix_column: "wf_matrix F \<Longrightarrow> i < shape1 F \<Longrightarrow> length (column F i) = shape0 F"
  by (simp add: wf_matrix_def list_all_iff column_def shape1_def)

lemma set_column_ok:
  "i < shape1 F \<Longrightarrow> length v = shape0 F \<Longrightarrow> set_column F i v = Inr (F\<lparr>cols := (cols F)[i := v]\<rparr>)"
  by (simp add: set_column_def)

lemma wf_matrix_update:
  "wf_matrix F \<Longrightarrow> length v = shape0 F \<Longrightarrow> wf_matrix (F\<lparr>cols := (cols F)[i := v]\<rparr>)"
  by (auto simp: wf_matrix_def list_all_iff dest: set_update_subset_insert [THEN subsetD])

lemma entry_update:
  "i < shape1 F \<Longrightarrow> entry (F\<lparr>cols := (cols F)[i := v]\<rparr>) r c = (if c = i then v ! r else entry F r c)"
  by (simp add: entry_def shape1_def nth_list_update)

lemma length_residual:
  "wf_matrix F \<Longrightarrow> length y_train = shape0 F \<Longrightarrow> residual y_train F i = Inr vect \<Longrightarrow> length vect = shape0 F"
  by (auto simp: residual_def np_binop_same_length length_sumcol)

lemma residual_eq:
  assumes "wf_matrix F" and "length y_train = shape0 F"
  shows "residual y_train F j =
           Inr (map (\<lambda>r. y_train ! r - (\<Sum>c\<in>{c. c < shape1 F \<and> int c \<noteq> int j}. entry F r c)) [0..<shape0 F])"
proof -
  have "residual y_train F j = Inr (map2 (-) y_train (sumcol F (int j)))"
    using assms by (simp add: residual_def np_binop_same_length length_sumcol)
  also have "map2 (-) y_train (sumcol F (int j))
      = map (\<lambda>r. y_train ! r - (\<Sum>c\<in>{c. c < shape1 F \<and> int c \<noteq> int j}. entry F r c)) [0..<shape0 F]"
    using assms by (intro nth_equalityI) (simp_all add: length_sumcol sumcol_nth)
  finally show ?thesis .
qed

lemma new_column_eq:
  assumes "length prediction = length vect"
  shows "new_column p prediction r vect =
           Inr (if mixe p = ''yes'' then map2 (\<lambda>a b. (a * r + b) / 2) prediction vect
                else map (\<lambda>a. a * r) prediction)"
proof -
  have "map (\<lambda>x. x / 2) (map2 (+) (map (\<lambda>x. x * r) prediction) vect)
          = map2 (\<lambda>a b. (a * r + b) / 2) prediction vect"
    using assms by (intro nth_equalityI) simp_all
  then show ?thesis
    using assms by (simp add: new_column_def scale_def np_binop_same_length)
qed

lemma get_column_label:
  "c \<in> set (labels X) \<Longrightarrow> get_column X c = Inr (the (map_of (df_columns X) c))"
  by (auto simp: get_column_def labels_def map_of_eq_None_iff split: option.splits)

lemma lookup_columns_labels:
  "set combo \<subseteq> set (labels X) \<Longrightarrow>
     lookup_columns X combo = Inr (map (\<lambda>c. the (map_of (df_columns X) c)) combo)"
  by (induction combo) (simp_all add: get_column_label)

lemma select_columns_labels:
  "set combo \<subseteq> set (labels X) \<Longrightarrow>
     select_columns X combo
       = Inr \<lparr>shape0 = df_shape0 X, cols = map (\<lambda>c. the (map_of (df_columns X) c)) combo\<rparr>"
  by (simp add: select_columns_def lookup_columns_labels)

lemma ramp_third:
  "3 \<le> n \<Longrightarrow> ramp k (maxscaledowncycle n) = Inr (min 1 (real (k + 1) / real_of_int (n div 3) + 1 / 2))"
  by (auto simp: ramp_def maxscaledowncycle_def)

text \<open>
  Claim C6. In the step for combination \<open>i\<close> of cycle \<open>k\<close> of a call with at least three
  cycles, let \<open>vect\<close> be the residual computed before the fit, \<open>xx\<close> the columns of the
  training inputs whose labels are the features of combination \<open>i\<close>, in their order,
  \<open>prediction\<close> the prediction on \<open>xx\<close> by the regressor \<open>i\<close> just fitted to \<open>vect\<close> on \<open>xx\<close>,
  and \<open>r = min 1 ((k + 1) / (number_cycles div 3) + 1 / 2)\<close> the ramp of the cycle. Then
  column \<open>i\<close> becomes \<open>(prediction * r + vect) / 2\<close> when \<^verbatim>\<open>mixe = 'yes'\<close> and
  \<open>prediction * r\<close> otherwise, no other column changes, the rest of the cycle runs from
  the updated matrix, and the residual of any other combination \<open>j\<close> computed from then
  on contains the new column \<open>i\<close>.
\<close>

theorem update_component_column:
  assumes comp: "component_function_train st = Some F"
    and wf: "wf_matrix F" and i: "i < shape1 F" and y: "length y_train = shape0 F"
    and ic: "i < length all_combos" and ig: "i < length (GPR st)"
    and known: "set (all_combos ! i) \<subseteq> set (labels X_train)"
    and cycles: "3 \<le> number_cycles p"
    and vect: "residual y_train F i = Inr vect"
    and xx: "xx = \<lparr>shape0 = df_shape0 X_train,
                   cols = map (\<lambda>c. the (map_of (df_columns X_train) c)) (all_combos ! i)\<rparr>"
    and fit: "lib_fit lib (GPR st ! i) xx vect = Inr fitted"
    and pred: "lib_predict lib ((GPR st ! i)\<lparr>gpr_fitted := Some fitted\<rparr>) xx = Inr prediction"
    and lp: "length prediction = shape0 F"
    and r: "r = min 1 (real (k + 1) / real_of_int (number_cycles p div 3) + 1 / 2)"
    and v: "v = (if mixe p = ''yes'' then map2 (\<lambda>a b. (a * r + b) / 2) prediction vect
              else map (\<lambda>a. a * r) prediction)"
    and st': "st' = st\<lparr>GPR := (GPR st)[i := (GPR st ! i)\<lparr>gpr_fitted := Some fitted\<rparr>],
                  component_function_train := Some (F\<lparr>cols := (cols F)[i := v]\<rparr>)\<rparr>"
  shows "update_component lib X_train y_train all_combos p (maxscaledowncycle (number_cycles p)) k i st
           = Inr st'
       \<and> for_each (i # rest)
           (update_component lib X_train y_train all_combos p (maxscaledowncycle (number_cycles p)) k) st
           = for_each rest
               (update_component lib X_train y_train all_combos p (maxscaledowncycle (number_cycles p)) k) st'
       \<and> (j < shape1 F \<and> j \<noteq> i \<longrightarrow>
            residual y_train (F\<lparr>cols := (cols F)[i := v]\<rparr>) j
              = Inr (map (\<lambda>row. y_train ! row
                               - (v ! row + (\<Sum>c\<in>{..<shape1 F} - {i, j}. entry F row c)))
                       [0..<shape0 F]))"
proof -
  let ?m = "maxscaledowncycle (number_cycles p)"
  have lv: "length vect = shape0 F"
    using wf y vect by (rule length_residual)
  have s1: "set_column F i vect = Inr (F\<lparr>cols := (cols F)[i := vect]\<rparr>)"
    using i lv by (rule set_column_ok)
  have c1: "column (F\<lparr>cols := (cols F)[i := vect]\<rparr>) i = vect"
    using i by (simp add: column_def shape1_def)
  have sel: "select_columns X_train (all_combos ! i) = Inr xx"
    unfolding xx using known by (rule select_columns_labels)
  have rmp: "ramp k ?m = Inr r"
    unfolding r using cycles by (rule ramp_third)
  have nc: "new_column p prediction r vect = Inr v"
    using new_column_eq [of prediction vect p r] lp v lv by simp
  have len_v: "length v = shape0 F"
    using lp v lv by simp
  have s2: "set_column (F\<lparr>cols := (cols F)[i := vect]\<rparr>) i v = Inr (F\<lparr>cols := (cols F)[i := v]\<rparr>)"
    using i len_v by (simp add: set_column_def shape1_def)
  have step: "update_component lib X_train y_train all_combos p ?m k i st = Inr st'"
    unfolding update_component_def
    by (simp add: comp vect sel fit pred rmp st' ic ig item_def bound_def s1 c1 nc s2)
  have loop: "for_each (i # rest) (update_component lib X_train y_train all_combos p ?m k) st
           = for_each rest (update_component lib X_train y_train all_combos p ?m k) st'"
    by (simp add: step)
  have next_residual: "residual y_train (F\<lparr>cols := (cols F)[i := v]\<rparr>) j
              = Inr (map (\<lambda>row. y_train ! row
                               - (v ! row + (\<Sum>c\<in>{..<shape1 F} - {i, j}. entry F row c)))
                       [0..<shape0 F])"
    if j: "j < shape1 F \<and> j \<noteq> i"
  proof -
    let ?F = "F\<lparr>cols := (cols F)[i := v]\<rparr>"
    have wf': "wf_matrix ?F"
      using wf len_v by (rule wf_matrix_update)
    have sh: "shape1 ?F = shape1 F" "shape0 ?F = shape0 F"
      by (simp_all add: shape1_def)
    have "(\<Sum>c\<in>{c. c < shape1 F \<and> int c \<noteq> int j}. entry ?F row c)
            = v ! row + (\<Sum>c\<in>{..<shape1 F} - {i, j}. entry F row c)" for row
    proof -
      have fin: "finite {c. c < shape1 F \<and> int c \<noteq> int j}"
        by simp
      have mem: "i \<in> {c. c < shape1 F \<and> int c \<noteq> int j}"
        using i j by simp
      have rest: "{c. c < shape1 F \<and> int c \<noteq> int j} - {i} = {..<shape1 F} - {i, j}"
        by auto
      have "(\<Sum>c\<in>{c. c < shape1 F \<and> int c \<noteq> int j}. entry ?F row c)
              = entry ?F row i + (\<Sum>c\<in>{c. c < shape1 F \<and> int c \<noteq> int j} - {i}. entry ?F row c)"
        using fin mem by (rule sum.remove)
      also have "entry ?F row i = v ! row"
        using i by (simp add: entry_update)
      also have "(\<Sum>c\<in>{c. c < shape1 F \<and> int c \<noteq> int j} - {i}. entry ?F row c)
              = (\<Sum>c\<in>{..<shape1 F} - {i, j}. entry F row c)"
        unfolding rest using i by (intro sum.cong) (simp_all add: entry_update)
      finally show ?thesis .
    qed
    then show ?thesis
      unfolding residual_eq [OF wf', of y_train j, unfolded sh, OF y] by simp
  qed
  from step loop next_residual show ?thesis
    by blast
qed

theorem update_component_column_witness:
  "update_component feature_library example_frame [1, 3] [[0], [1]]
     (example_params\<lparr>number_cycles := 9, mixe := ''yes''\<rparr>)
     (maxscaledowncycle (number_cycles (example_params\<lparr>number_cycles := 9, mixe := ''yes''\<rparr>))) 0 1
     (initial_state (example_params\<lparr>number_cycles := 9, mixe := ''yes''\<rparr>) 2 (Some (full 2 2 1)))
   = Inr ((initial_state (example_params\<lparr>number_cycles := 9, mixe := ''yes''\<rparr>) 2 (Some (full 2 2 1)))
            \<lparr>GPR := (GPR (initial_state (example_params\<lparr>number_cycles := 9, mixe := ''yes''\<rparr>) 2
                            (Some (full 2 2 1))))
                      [1 := (GPR (initial_state (example_params\<lparr>number_cycles := 9, mixe := ''yes''\<rparr>) 2
                                    (Some (full 2 2 1))) ! 1)
                              \<lparr>gpr_fitted := Some 1\<rparr>],
              component_function_train :=
                Some ((full 2 2 1)\<lparr>cols := (cols (full 2 2 1))[1 := [5 / 6, 17 / 12]]\<rparr>)\<rparr>)
   \<and> residual [1, 3] ((full 2 2 1)\<lparr>cols := (cols (full 2 2 1))[1 := [5 / 6, 17 / 12]]\<rparr>) 0
       = Inr (map (\<lambda>row. [1, 3] ! row
                 - ([5 / 6, 17 / 12] ! row
                    + (\<Sum>c\<in>{..<shape1 (full 2 2 1)} - {1, 0}. entry (full 2 2 1) row c)))
               [0..<shape0 (full 2 2 1)])"
proof -
  let ?p = "example_params\<lparr>number_cycles := 9, mixe := ''yes''\<rparr>"
  let ?st = "initial_state ?p 2 (Some (full 2 2 1)) :: real train_state"
  let ?xx = "\<lparr>shape0 = df_shape0 example_frame,
              cols = map (\<lambda>c. the (map_of (df_columns example_frame) c)) ([[0], [1]] ! 1)\<rparr>"
  have h1: "component_function_train ?st = Some (full 2 2 1)"
    by (simp add: initial_state_def)
  have h2: "wf_matrix (full 2 2 1)"
    by (simp add: wf_matrix_def full_def list_all_iff)
  have h3: "1 < shape1 (full 2 2 1)"
    by (simp add: shape1_def full_def)
  have h4: "length [1, 3 :: real] = shape0 (full 2 2 1)"
    by (simp add: full_def)
  have hc: "1 < length [[0], [1::nat]]"
    by simp
  have hg: "1 < length (GPR ?st)"
    by (simp add: initial_state_def)
  have hk: "set ([[0], [1]] ! 1) \<subseteq> set (labels example_frame)"
    by (simp add: labels_def example_frame_def)
  have hn: "3 \<le> number_cycles ?p"
    by simp
  have h5: "residual [1, 3] (full 2 2 1) 1 = Inr [0, 2]"
    by (simp add: model_defs upt_unfold)
  have xx: "?xx = \<lparr>shape0 = 2, cols = [[1, 0]]\<rparr>"
    by (simp add: example_frame_def)
  have h7: "lib_fit feature_library (GPR ?st ! 1) ?xx [0, 2] = Inr 1"
    unfolding xx by (simp add: feature_library_def shape1_def mean_def)
  have h8: "lib_predict feature_library ((GPR ?st ! 1)\<lparr>gpr_fitted := Some 1\<rparr>) ?xx = Inr [2, 1]"
    unfolding xx by (simp add: feature_library_def shape1_def column_def)
  have h9: "length [2, 1 :: real] = shape0 (full 2 2 1)"
    by (simp add: full_def)
  have r: "(5 / 6 :: real) = min 1 (real (0 + 1) / real_of_int (number_cycles ?p div 3) + 1 / 2)"
    by simp
  have h11: "[5 / 6, 17 / 12] = (if mixe ?p = ''yes''
              then map2 (\<lambda>a b. (a * (5 / 6) + b) / 2) [2, 1] [0, 2 :: real]
              else map (\<lambda>a. a * (5 / 6)) [2, 1])"
    by simp
  have j: "0 < shape1 (full 2 2 1) \<and> (0::nat) \<noteq> 1"
    by (simp add: shape1_def full_def)
  show ?thesis
    using update_component_column [OF h1 h2 h3 h4 hc hg hk hn h5 refl h7 h8 h9 r h11 refl, of "[]" 0] j
    by blast
qed

section \<open>The scale ramp\<close>

text \<open>
  Claim C3, at \<^verbatim>\<open>number_cycles = 1\<close>. There \<^verbatim>\<open>maxscaledowncycle = int(1 / 3) = 0\<close>, and the
  first update of the first cycle divides by it: the call ends with
  \<^verbatim>\<open>ZeroDivisionError\<close>.
\<close>

theorem one_cycle_divides_by_zero:
  "maxscaledowncycle 1 = 0
   \<and> ramp 0 (maxscaledowncycle 1) = Inl ZeroDivisionError
   \<and> RS_HDMR_GPR stub_library example_frame [1, 3] example_frame [1, 3]
        (default_params\<lparr>order := 1, number_cycles := 1\<rparr>) = Inl ZeroDivisionError"
  by (simp add: model_defs upt_unfold)

section \<open>Orders outside the range of the features\<close>

lemma combinations_of_too_long: "length xs < r \<Longrightarrow> combinations_of xs r = []"
  by (induction xs r rule: combinations_of.induct) simp_all

lemma length_combinations_of: "length (combinations_of xs r) = length xs choose r"
  by (induction xs r rule: combinations_of.induct) simp_all

lemma combinations_of_subseqs:
  "combinations_of xs r = filter (\<lambda>c. length c = r) (subseqs xs)"
proof (induction xs r rule: combinations_of.induct)
  case (1 xs)
  show ?case
    by (induction xs) (simp_all add: Let_def filter_map comp_def)
next
  case (2 r)
  show ?case by simp
next
  case (3 x xs r)
  then show ?case
    by (simp add: Let_def filter_map comp_def)
qed

lemma combinations_of_elements:
  assumes "c \<in> set (combinations_of xs r)" and "distinct xs"
  shows "length c = r \<and> distinct c \<and> set c \<subseteq> set xs"
proof -
  from assms(1) have len: "length c = r" and sub: "c \<in> set (subseqs xs)"
    by (simp_all add: combinations_of_subseqs)
  from sub assms(2) have "distinct c"
    by (rule subseqs_distinctD)
  moreover from sub have "set c \<in> Pow (set xs)"
    unfolding subseqs_powset [symmetric] by (rule imageI)
  ultimately show ?thesis
    using len by simp
qed

lemma distinct_combinations_of:
  "distinct xs \<Longrightarrow> distinct (map set (combinations_of xs r))"
  unfolding combinations_of_subseqs by (simp add: distinct_set_subseqs distinct_map_filter)

lemma for_each_Nil_cycles:
  assumes "component_function_train st = Some F" and "GPR st = []"
    and "\<And>e. train_rmse p y_train F \<noteq> Inl e"
  shows "\<exists>st'. for_each ks (cycle lib X_train y_train [] p m) st = Inr st'
              \<and> component_function_train st' = Some F \<and> GPR st' = []"
  using assms(1,2)
proof (induction ks arbitrary: st)
  case Nil
  then show ?case by simp
next
  case (Cons k ks)
  obtain e where e: "train_rmse p y_train F = Inr e"
    using assms(3) by (cases "train_rmse p y_train F") auto
  have d: "component_function_train (decay_alpha p 0 k st) = Some F"
    using Cons.prems(1) by (simp add: decay_alpha_def)
  have g: "GPR (decay_alpha p 0 k st) = []"
    using Cons.prems(2) by (simp add: decay_alpha_def)
  have c: "cycle lib X_train y_train [] p m k st
             = Inr ((decay_alpha p 0 k st)\<lparr>rmse_train := rmse_train (decay_alpha p 0 k st) @ [e]\<rparr>)"
    by (simp add: cycle_def d bound_def e)
  show ?case
    using Cons.IH [of "(decay_alpha p 0 k st)\<lparr>rmse_train := rmse_train (decay_alpha p 0 k st) @ [e]\<rparr>"] d g
    by (simp add: c)
qed

lemma sumcol_no_columns: "sumcol (full N 0 x) j = replicate N 0"
  by (simp add: sumcol_def full_def shape1_def)

lemma rmse_same_length_Inr:
  "length a = length b \<Longrightarrow> \<exists>e. rmse a b = Inr e"
  by (simp add: rmse_def bind_def np_binop_same_length)

lemma no_combination_poly_returns:
  assumes "int (length (labels X_train)) < order p" and "init p = ''poly''"
    and "length y_train = df_shape0 X_train" and "length y_test = df_shape0 X_test"
  shows "\<exists>history rmse_test y_pred_scaled error_bars.
           RS_HDMR_GPR lib X_train y_train X_test y_test p
             = Inr (history, rmse_test, [], y_pred_scaled, error_bars)"
proof -
  have c: "combinations (labels X_train) (order p) = Inr []"
    using assms(1) by (simp add: combinations_def combinations_of_too_long)
  have n: "init p \<noteq> ''naive''"
    using assms(2) by simp
  have ip: "init_poly lib X_train y_train [] = Inr (full (df_shape0 X_train) 0 1)"
    by (simp add: init_poly_def)
  have tr: "train_rmse p y_train (full (df_shape0 X_train) 0 1) \<noteq> Inl e" for e
    using rmse_same_length_Inr [of "scale y_train (scale_factor p)"
        "scale (sumcol (full (df_shape0 X_train) 0 1) 10000) (scale_factor p)"] assms(3)
    by (auto simp: train_rmse_def sumcol_no_columns scale_def)
  obtain st where st: "for_each [0..<nat (number_cycles p)]
        (cycle lib X_train y_train [] p (maxscaledowncycle (number_cycles p)))
        (initial_state p 0 (Some (full (df_shape0 X_train) 0 1))) = Inr st"
    and g: "GPR st = []"
    using for_each_Nil_cycles [of "initial_state p 0 (Some (full (df_shape0 X_train) 0 1))"
        "full (df_shape0 X_train) 0 1" p y_train "[0..<nat (number_cycles p)]" lib X_train
        "maxscaledowncycle (number_cycles p)"] tr
    by (auto simp: initial_state_def)
  obtain e where e: "rmse (scale y_test (scale_factor p))
        (scale (ypred_of (full (df_shape0 X_test) 0 0)) (scale_factor p)) = Inr e"
    using rmse_same_length_Inr [of "scale y_test (scale_factor p)"
        "scale (ypred_of (full (df_shape0 X_test) 0 0)) (scale_factor p)"] assms(4)
    by (auto simp: ypred_of_def sumcol_no_columns scale_def)
  show ?thesis
    by (simp add: RS_HDMR_GPR_def c n assms(2) ip st g e)
qed

lemma not_Inr_fails: "(\<And>x. m \<noteq> Inr x) \<Longrightarrow> \<exists>e. m = Inl e"
  by (cases m) auto

lemma test_component_no_features:
  assumes "rejects_no_features lib"
  shows "test_component lib X_test [[]] gprs 0 ts \<noteq> Inr ts'"
proof
  assume "test_component lib X_test [[]] gprs 0 ts = Inr ts'"
  then obtain g ms where "lib_predict_std lib g \<lparr>shape0 = df_shape0 X_test, cols = []\<rparr> = Inr ms"
    by (auto simp: test_component_def bind_Inr_iff item_def select_columns_def split: if_splits)
  moreover have "lib_predict_std lib g \<lparr>shape0 = df_shape0 X_test, cols = []\<rparr> = Inl ValueError"
    using assms by (simp add: rejects_no_features_def shape1_def)
  ultimately show False by simp
qed

lemma order_zero_fails:
  assumes "order p = 0" and "rejects_no_features lib"
  shows "\<exists>e. RS_HDMR_GPR lib X_train y_train X_test y_test p = Inl e"
proof (rule not_Inr_fails)
  fix res
  show "RS_HDMR_GPR lib X_train y_train X_test y_test p \<noteq> Inr res"
  proof
    assume "RS_HDMR_GPR lib X_train y_train X_test y_test p = Inr res"
    then obtain gprs ts where
      "for_each [0..<1] (test_component lib X_test [[]] gprs)
         (full (df_shape0 X_test) 1 0, full (df_shape0 X_test) 1 0) = Inr ts"
      using assms(1) by (auto simp: RS_HDMR_GPR_def combinations_def bind_Inr_iff Let_def)
    then have "test_component lib X_test [[]] gprs 0
         (full (df_shape0 X_test) 1 0, full (df_shape0 X_test) 1 0) = Inr ts"
      by (simp split: sum.splits)
    with test_component_no_features [OF assms(2)] show False
      by blast
  qed
qed

lemma no_combination_unbound:
  assumes "int (length (labels X_train)) < order p"
    and "init p \<noteq> ''naive''" and "init p \<noteq> ''poly''" and "1 \<le> number_cycles p"
  shows "RS_HDMR_GPR lib X_train y_train X_test y_test p = Inl UnboundLocalError"
proof -
  have c: "combinations (labels X_train) (order p) = Inr []"
    using assms(1) by (simp add: combinations_def combinations_of_too_long)
  obtain n where n: "nat (number_cycles p) = Suc n"
    using assms(4) by (cases "nat (number_cycles p)") auto
  have u: "[0..<Suc n] = 0 # [1..<Suc n]"
    by (simp add: upt_rec)
  have "cycle lib X_train y_train [] p (maxscaledowncycle (number_cycles p)) 0
          (initial_state p 0 None) = Inl UnboundLocalError"
    by (simp add: cycle_def decay_alpha_def initial_state_def bound_def)
  then have "for_each (0 # [1..<Suc n]) (cycle lib X_train y_train [] p (maxscaledowncycle (number_cycles p)))
          (initial_state p 0 None) = Inl UnboundLocalError"
    by simp
  then have "for_each [0..<nat (number_cycles p)]
          (cycle lib X_train y_train [] p (maxscaledowncycle (number_cycles p)))
          (initial_state p 0 None) = Inl UnboundLocalError"
    unfolding n u .
  then show ?thesis
    by (simp add: RS_HDMR_GPR_def c assms(2,3))
qed

lemma no_combination_returns:
  assumes "int (length (labels X_train)) < order p"
    and "init p = ''poly'' \<or> init p \<noteq> ''naive'' \<and> number_cycles p < 1"
    and "length y_train = df_shape0 X_train" and "length y_test = df_shape0 X_test"
  shows "\<exists>history rmse_test y_pred_scaled error_bars.
           RS_HDMR_GPR lib X_train y_train X_test y_test p
             = Inr (history, rmse_test, [], y_pred_scaled, error_bars)"
proof (cases "init p = ''poly''")
  case True
  show ?thesis
    by (rule no_combination_poly_returns [OF assms(1) True assms(3,4)])
next
  case False
  with assms(2) have naive: "init p \<noteq> ''naive''" and none: "nat (number_cycles p) = 0"
    by auto
  have c: "combinations (labels X_train) (order p) = Inr []"
    using assms(1) by (simp add: combinations_def combinations_of_too_long)
  obtain e where e: "rmse (scale y_test (scale_factor p))
        (scale (ypred_of (full (df_shape0 X_test) 0 0)) (scale_factor p)) = Inr e"
    using rmse_same_length_Inr [of "scale y_test (scale_factor p)"
        "scale (ypred_of (full (df_shape0 X_test) 0 0)) (scale_factor p)"] assms(4)
    by (auto simp: ypred_of_def sumcol_no_columns scale_def)
  show ?thesis
    by (simp add: RS_HDMR_GPR_def c naive False none e initial_state_def)
qed

lemma order_zero_example:
  "RS_HDMR_GPR feature_library example_frame [1, 3] example_frame [1, 3] (default_params\<lparr>order := 0\<rparr>)
     = Inl ValueError"
  by (simp add: model_defs feature_library_def upt_unfold)

text \<open>
  Claim C4, as the program has it. For every order below one the call fails: a negative
  order with the \<^verbatim>\<open>ValueError\<close> of \<^verbatim>\<open>itertools.combinations\<close>; an order of zero, which gives
  one empty combination, with the \<^verbatim>\<open>IndexError\<close> of the polynomial initialisation, and
  otherwise with the error that the regression library raises for inputs with no
  feature. An order above the number \<open>D\<close> of features gives no combination without
  failing: the uniform initialisation then divides by zero, an \<open>init\<close> that is neither
  \<^verbatim>\<open>'naive'\<close> nor \<^verbatim>\<open>'poly'\<close> leaves the component functions unbound for the first cycle,
  but with the polynomial initialisation (or with no cycle to run) the call does not
  fail and returns a result with no regressor. For \<open>1 \<le> order \<le> D\<close> and \<open>D\<close> different
  feature identifiers the enumerator returns \<open>D\<close> choose \<open>order\<close> combinations, each of
  them \<open>order\<close> different features, no two of them the same selection.
\<close>

theorem order_out_of_range:
  "(order p < 0 \<longrightarrow>
      RS_HDMR_GPR lib X_train y_train X_test y_test p = Inl ValueError)
   \<and> (order p = 0 \<and> init p = ''poly'' \<longrightarrow>
      RS_HDMR_GPR lib X_train y_train X_test y_test p = Inl IndexError)
   \<and> (order p = 0 \<and> rejects_no_features lib \<longrightarrow>
      (\<exists>e. RS_HDMR_GPR lib X_train y_train X_test y_test p = Inl e))
   \<and> (int (length (labels X_train)) < order p \<and> init p = ''naive'' \<longrightarrow>
      RS_HDMR_GPR lib X_train y_train X_test y_test p = Inl ZeroDivisionError)
   \<and> (int (length (labels X_train)) < order p \<and> init p \<noteq> ''naive'' \<and> init p \<noteq> ''poly''
        \<and> 1 \<le> number_cycles p \<longrightarrow>
      RS_HDMR_GPR lib X_train y_train X_test y_test p = Inl UnboundLocalError)
   \<and> (int (length (labels X_train)) < order p
        \<and> (init p = ''poly'' \<or> init p \<noteq> ''naive'' \<and> number_cycles p < 1)
        \<and> length y_train = df_shape0 X_train \<and> length y_test = df_shape0 X_test \<longrightarrow>
      (\<exists>history rmse_test y_pred_scaled error_bars.
         RS_HDMR_GPR lib X_train y_train X_test y_test p
           = Inr (history, rmse_test, [], y_pred_scaled, error_bars)))
   \<and> (1 \<le> order p \<and> order p \<le> int (length (labels X_train)) \<and> distinct (labels X_train) \<longrightarrow>
      (\<exists>all_combos.
         combinations (labels X_train) (order p) = Inr all_combos
         \<and> length all_combos = length (labels X_train) choose nat (order p)
         \<and> (\<forall>c\<in>set all_combos.
               int (length c) = order p \<and> distinct c \<and> set c \<subseteq> set (labels X_train))
         \<and> distinct (map set all_combos)))"
proof (intro conjI impI)
  assume "order p < 0"
  then show "RS_HDMR_GPR lib X_train y_train X_test y_test p = Inl ValueError"
    by (simp add: RS_HDMR_GPR_def combinations_def)
next
  assume h: "order p = 0 \<and> init p = ''poly''"
  have c: "combinations (labels X_train) 0 = Inr [[]]"
    by (simp add: combinations_def)
  have "init_poly lib X_train y_train [[]] = Inl IndexError"
    by (simp add: init_poly_def init_poly_step_def item_def)
  then show "RS_HDMR_GPR lib X_train y_train X_test y_test p = Inl IndexError"
    using h by (simp add: RS_HDMR_GPR_def c)
next
  assume "order p = 0 \<and> rejects_no_features lib"
  then show "\<exists>e. RS_HDMR_GPR lib X_train y_train X_test y_test p = Inl e"
    using order_zero_fails by blast
next
  assume h: "int (length (labels X_train)) < order p \<and> init p = ''naive''"
  then have "length (labels X_train) < nat (order p)" and "\<not> order p < 0"
    by linarith+
  then have "combinations (labels X_train) (order p) = Inr []"
    by (simp add: combinations_def combinations_of_too_long)
  then show "RS_HDMR_GPR lib X_train y_train X_test y_test p = Inl ZeroDivisionError"
    using h by (simp add: RS_HDMR_GPR_def init_naive_def)
next
  assume "int (length (labels X_train)) < order p \<and> init p \<noteq> ''naive'' \<and> init p \<noteq> ''poly''
        \<and> 1 \<le> number_cycles p"
  then show "RS_HDMR_GPR lib X_train y_train X_test y_test p = Inl UnboundLocalError"
    using no_combination_unbound by blast
next
  assume "int (length (labels X_train)) < order p
        \<and> (init p = ''poly'' \<or> init p \<noteq> ''naive'' \<and> number_cycles p < 1)
        \<and> length y_train = df_shape0 X_train \<and> length y_test = df_shape0 X_test"
  then show "\<exists>history rmse_test y_pred_scaled error_bars.
         RS_HDMR_GPR lib X_train y_train X_test y_test p
           = Inr (history, rmse_test, [], y_pred_scaled, error_bars)"
    using no_combination_returns [of X_train p y_train y_test X_test lib] by blast
next
  assume h: "1 \<le> order p \<and> order p \<le> int (length (labels X_train)) \<and> distinct (labels X_train)"
  let ?cs = "combinations_of (labels X_train) (nat (order p))"
  have "combinations (labels X_train) (order p) = Inr ?cs"
    using h by (simp add: combinations_def)
  moreover have "length ?cs = length (labels X_train) choose nat (order p)"
    by (rule length_combinations_of)
  moreover have "\<forall>c\<in>set ?cs. int (length c) = order p \<and> distinct c \<and> set c \<subseteq> set (labels X_train)"
    using combinations_of_elements [of _ "labels X_train" "nat (order p)"] h by auto
  moreover have "distinct (map set ?cs)"
    using h by (simp add: distinct_combinations_of)
  ultimately show "\<exists>all_combos.
         combinations (labels X_train) (order p) = Inr all_combos
         \<and> length all_combos = length (labels X_train) choose nat (order p)
         \<and> (\<forall>c\<in>set all_combos.
               int (length c) = order p \<and> distinct c \<and> set c \<subseteq> set (labels X_train))
         \<and> distinct (map set all_combos)"
    by blast
qed

theorem order_out_of_range_witness:
  "RS_HDMR_GPR stub_library example_frame [1, 3] example_frame [1, 3] (default_params\<lparr>order := - 1\<rparr>)
     = Inl ValueError
   \<and> RS_HDMR_GPR stub_library example_frame [1, 3] example_frame [1, 3]
       (default_params\<lparr>order := 0, init := ''poly''\<rparr>) = Inl IndexError
   \<and> (\<exists>e. RS_HDMR_GPR feature_library example_frame [1, 3] example_frame [1, 3]
            (default_params\<lparr>order := 0\<rparr>) = Inl e)
   \<and> RS_HDMR_GPR stub_library example_frame [1, 3] example_frame [1, 3] default_params
     = Inl ZeroDivisionError
   \<and> RS_HDMR_GPR stub_library example_frame [1, 3] example_frame [1, 3] (default_params\<lparr>init := ''zero''\<rparr>)
     = Inl UnboundLocalError
   \<and> (\<exists>history rmse_test y_pred_scaled error_bars.
         RS_HDMR_GPR stub_library example_frame [1, 3] example_frame [1, 3] (default_params\<lparr>init := ''poly''\<rparr>)
           = Inr (history, rmse_test, [], y_pred_scaled, error_bars))
   \<and> (\<exists>all_combos.
         combinations (labels example_frame) (order example_params) = Inr all_combos
         \<and> length all_combos = length (labels example_frame) choose nat (order example_params)
         \<and> (\<forall>c\<in>set all_combos.
               int (length c) = order example_params \<and> distinct c \<and> set c \<subseteq> set (labels example_frame))
         \<and> distinct (map set all_combos))"
proof -
  have h1: "order (default_params\<lparr>order := - 1\<rparr>) < 0"
    by simp
  have h2: "order (default_params\<lparr>order := 0, init := ''poly''\<rparr>) = 0
        \<and> init (default_params\<lparr>order := 0, init := ''poly''\<rparr>) = ''poly''"
    by simp
  have h3: "order (default_params\<lparr>order := 0\<rparr>) = 0 \<and> rejects_no_features feature_library"
    by (simp add: rejects_no_features_def feature_library_def)
  have h4: "int (length (labels example_frame)) < order default_params \<and> init default_params = ''naive''"
    by (simp add: default_params_def example_frame_def labels_def)
  have h5: "int (length (labels example_frame)) < order (default_params\<lparr>init := ''zero''\<rparr>)
        \<and> init (default_params\<lparr>init := ''zero''\<rparr>) \<noteq> ''naive''
        \<and> init (default_params\<lparr>init := ''zero''\<rparr>) \<noteq> ''poly''
        \<and> 1 \<le> number_cycles (default_params\<lparr>init := ''zero''\<rparr>)"
    by (simp add: default_params_def example_frame_def labels_def)
  have h6: "int (length (labels example_frame)) < order (default_params\<lparr>init := ''poly''\<rparr>)
        \<and> (init (default_params\<lparr>init := ''poly''\<rparr>) = ''poly''
           \<or> init (default_params\<lparr>init := ''poly''\<rparr>) \<noteq> ''naive''
             \<and> number_cycles (default_params\<lparr>init := ''poly''\<rparr>) < 1)
        \<and> length [1, 3 :: real] = df_shape0 example_frame \<and> length [1, 3 :: real] = df_shape0 example_frame"
    by (simp add: default_params_def example_frame_def labels_def)
  have h7: "1 \<le> order example_params \<and> order example_params \<le> int (length (labels example_frame))
        \<and> distinct (labels example_frame)"
    by (simp add: example_params_def default_params_def labels_def example_frame_def)
  have c1: "RS_HDMR_GPR stub_library example_frame [1, 3] example_frame [1, 3] (default_params\<lparr>order := - 1\<rparr>)
     = Inl ValueError"
    by (rule order_out_of_range [of "default_params\<lparr>order := - 1\<rparr>" stub_library example_frame
          "[1, 3]" example_frame "[1, 3]", THEN conjunct1, THEN mp, OF h1])
  have c2: "RS_HDMR_GPR stub_library example_frame [1, 3] example_frame [1, 3]
       (default_params\<lparr>order := 0, init := ''poly''\<rparr>) = Inl IndexError"
    by (rule order_out_of_range [of "default_params\<lparr>order := 0, init := ''poly''\<rparr>" stub_library
          example_frame "[1, 3]" example_frame "[1, 3]", THEN conjunct2, THEN conjunct1, THEN mp, OF h2])
  have c3: "\<exists>e. RS_HDMR_GPR feature_library example_frame [1, 3] example_frame [1, 3]
            (default_params\<lparr>order := 0\<rparr>) = Inl e"
    by (rule order_out_of_range [of "default_params\<lparr>order := 0\<rparr>" feature_library
          example_frame "[1, 3]" example_frame "[1, 3]",
          THEN conjunct2, THEN conjunct2, THEN conjunct1, THEN mp, OF h3])
  have c4: "RS_HDMR_GPR stub_library example_frame [1, 3] example_frame [1, 3] default_params
     = Inl ZeroDivisionError"
    by (rule order_out_of_range [of default_params stub_library example_frame "[1, 3]" example_frame "[1, 3]",
          THEN conjunct2, THEN conjunct2, THEN conjunct2, THEN conjunct1, THEN mp, OF h4])
  have c5: "RS_HDMR_GPR stub_library example_frame [1, 3] example_frame [1, 3] (default_params\<lparr>init := ''zero''\<rparr>)
     = Inl UnboundLocalError"
    by (rule order_out_of_range [of "default_params\<lparr>init := ''zero''\<rparr>" stub_library example_frame
          "[1, 3]" example_frame "[1, 3]",
          THEN conjunct2, THEN conjunct2, THEN conjunct2, THEN conjunct2, THEN conjunct1, THEN mp, OF h5])
  have c6: "\<exists>history rmse_test y_pred_scaled error_bars.
         RS_HDMR_GPR stub_library example_frame [1, 3] example_frame [1, 3] (default_params\<lparr>init := ''poly''\<rparr>)
           = Inr (history, rmse_test, [], y_pred_scaled, error_bars)"
    by (rule order_out_of_range [of "default_params\<lparr>init := ''poly''\<rparr>" stub_library example_frame
          "[1, 3]" example_frame "[1, 3]",
          THEN conjunct2, THEN conjunct2, THEN conjunct2, THEN conjunct2, THEN conjunct2, THEN conjunct1,
          THEN mp, OF h6])
  have c7: "\<exists>all_combos.
         combinations (labels example_frame) (order example_params) = Inr all_combos
         \<and> length all_combos = length (labels example_frame) choose nat (order example_params)
         \<and> (\<forall>c\<in>set all_combos.
               int (length c) = order example_params \<and> distinct c \<and> set c \<subseteq> set (labels example_frame))
         \<and> distinct (map set all_combos)"
    by (rule order_out_of_range [of example_params stub_library example_frame "[1, 3]" example_frame "[1, 3]",
          THEN conjunct2, THEN conjunct2, THEN conjunct2, THEN conjunct2, THEN conjunct2, THEN conjunct2,
          THEN mp, OF h7])
  from c1 c2 c3 c4 c5 c6 c7 show ?thesis
    by (intro conjI)
qed

theorem order_above_features_counterexample:
  "RS_HDMR_GPR stub_library example_frame [1, 3] example_frame [1, 3]
     (default_params\<lparr>order := 3, init := ''poly'', number_cycles := 1\<rparr>)
   = Inr ([Finite (sqrt 5)], Finite (sqrt 5), [], [0, 0], [0, 0])"
  by (simp add: model_defs upt_unfold)

section \<open>The sentinel indices of the final sums\<close>

text \<open>
  The final sums call \<open>sumcol\<close> with the literal indices 10000 and 5000. As long as the
  matrix has no column of that index the sum is the one of all the columns, and a call
  that returns has appended one entry to the history in every cycle.
\<close>

lemma sumcol_below_sentinel:
  assumes "wf_matrix F" and "int (shape1 F) \<le> j"
  shows "sumcol F j = map (\<lambda>r. \<Sum>i<shape1 F. entry F r i) [0..<shape0 F]"
proof -
  have "{i. i < shape1 F \<and> int i \<noteq> j} = {..<shape1 F}"
    using assms(2) by auto
  then show ?thesis
    using sumcol_eq [OF assms(1), of j] by simp
qed

lemma train_rmse_up_to_10000_columns:
  assumes "wf_matrix F" and "shape1 F \<le> 10000"
  shows "train_rmse p y_train F =
           rmse (scale y_train (scale_factor p))
             (scale (map (\<lambda>r. \<Sum>i<shape1 F. entry F r i) [0..<shape0 F]) (scale_factor p))"
  using assms by (simp add: train_rmse_def sumcol_below_sentinel)

lemma error_bars_up_to_5000_columns:
  assumes "wf_matrix E" and "shape1 E \<le> 5000"
  shows "scale (error_bars_of E) c = map (\<lambda>r. sqrt (\<Sum>i<shape1 E. entry E r i) * c) [0..<shape0 E]"
  using assms by (simp add: error_bars_of_def sumcol_below_sentinel scale_def comp_def)

lemma update_component_history:
  assumes "update_component lib X_train y_train all_combos p m k i st = Inr st'"
  shows "rmse_train st' = rmse_train st"
proof -
  from update_component_GPR [OF assms] obtain fitted where
    e: "st' = st\<lparr>GPR := (GPR st)[i := (GPR st ! i)\<lparr>gpr_fitted := Some fitted\<rparr>],
              component_function_train := component_function_train st'\<rparr>" ..
  show ?thesis
    by (subst e) simp
qed

lemma cycle_history:
  assumes "cycle lib X_train y_train all_combos p m k st = Inr st'"
  shows "length (rmse_train st') = Suc (length (rmse_train st))"
proof -
  from assms obtain t e where
    t: "for_each [0..<length all_combos] (update_component lib X_train y_train all_combos p m k)
          (decay_alpha p (length all_combos) k st) = Inr t"
    and st': "st' = t\<lparr>rmse_train := rmse_train t @ [e]\<rparr>"
    by (auto simp: cycle_def bind_Inr_iff)
  have "rmse_train t = rmse_train (decay_alpha p (length all_combos) k st)"
    using t by (rule for_each_preserves) (rule update_component_history)
  also have "\<dots> = rmse_train st"
    by (simp add: decay_alpha_def)
  finally show ?thesis
    using st' by simp
qed

lemma cycles_history:
  assumes "for_each ks (cycle lib X_train y_train all_combos p m) st = Inr st'"
  shows "length (rmse_train st') = length (rmse_train st) + length ks"
  using assms
proof (induction ks arbitrary: st)
  case Nil
  then show ?case by simp
next
  case (Cons k ks)
  from Cons.prems obtain t where t: "cycle lib X_train y_train all_combos p m k st = Inr t"
    and rest: "for_each ks (cycle lib X_train y_train all_combos p m) t = Inr st'"
    by (auto split: sum.splits)
  show ?case
    using Cons.IH [OF rest] cycle_history [OF t] by simp
qed

lemma history_has_one_entry_per_cycle:
  assumes "RS_HDMR_GPR lib X_train y_train X_test y_test p
             = Inr (history, rmse_test, gprs, y_pred_scaled, error_bars)"
  shows "length history = nat (number_cycles p)"
proof -
  from assms obtain all_combos F0 st where
    run: "for_each [0..<nat (number_cycles p)]
            (cycle lib X_train y_train all_combos p (maxscaledowncycle (number_cycles p)))
            (initial_state p (length all_combos) F0) = Inr st"
    and h: "history = rmse_train st"
    by (auto simp: RS_HDMR_GPR_def bind_Inr_iff Let_def)
  show ?thesis
    using cycles_history [OF run] by (simp add: h initial_state_def)
qed

lemma sumcol_full:
  "sumcol (full N M x) j = replicate N (x * real (card {i. i < M \<and> int i \<noteq> j}))"
proof -
  have wf: "wf_matrix (full N M x)"
    by (simp add: wf_matrix_def full_def list_all_iff)
  have sh: "shape0 (full N M x) = N" "shape1 (full N M x) = M"
    by (simp_all add: full_def shape1_def)
  have "(\<Sum>i\<in>{i. i < M \<and> int i \<noteq> j}. entry (full N M x) r i) = x * real (card {i. i < M \<and> int i \<noteq> j})"
    if "r < N" for r
  proof -
    have "(\<Sum>i\<in>{i. i < M \<and> int i \<noteq> j}. entry (full N M x) r i) = (\<Sum>i\<in>{i. i < M \<and> int i \<noteq> j}. x)"
      using that by (intro sum.cong) (simp_all add: entry_full)
    then show ?thesis by (simp add: mult.commute)
  qed
  then show ?thesis
    unfolding sumcol_eq [OF wf] sh by (intro nth_equalityI) simp_all
qed

lemma card_below_skip: "card {i. i < Suc n \<and> int i \<noteq> int n} = n"
proof -
  have "{i. i < Suc n \<and> int i \<noteq> int n} = {..<n}"
    by auto
  then show ?thesis by simp
qed

text \<open>
  Claim C5, with 10001 combinations. The entry of the history is computed from
  \<^verbatim>\<open>sumcol(component_function_train, 10000)\<close>, which leaves the column of index 10000
  out: for one sample with the target 10001 and 10001 component functions that are all
  one, the entry is 1, although the sum of all the columns is the target and the error
  of that sum is 0.
\<close>

theorem train_rmse_skips_column_10000:
  "train_rmse default_params [10001] (full 1 10001 1) = Inr (Finite 1)
   \<and> rmse (scale [10001] (scale_factor default_params))
        (scale [\<Sum>i<10001. entry (full 1 10001 1) 0 i] (scale_factor default_params)) = Inr (Finite 0)"
proof -
  have "card {i. i < Suc 10000 \<and> int i \<noteq> int 10000} = 10000"
    by (rule card_below_skip)
  then have c: "card {i. i < (10001::nat) \<and> int i \<noteq> 10000} = 10000"
    by simp
  have s: "sumcol (full 1 10001 1) 10000 = [10000]"
    unfolding sumcol_full c by simp
  have a: "train_rmse default_params [10001] (full 1 10001 1) = Inr (Finite 1)"
    unfolding train_rmse_def s
    by (simp add: default_params_def scale_def rmse_def np_binop_def)
  have "(\<Sum>i<10001. entry (full 1 10001 1) 0 i) = (\<Sum>i<(10001::nat). (1::real))"
    by (intro sum.cong) (simp_all add: entry_full)
  then have t: "(\<Sum>i<10001. entry (full 1 10001 1) 0 i) = 10001"
    by simp
  have b: "rmse (scale [10001] (scale_factor default_params))
        (scale [\<Sum>i<10001. entry (full 1 10001 1) 0 i] (scale_factor default_params)) = Inr (Finite 0)"
    unfolding t by (simp add: default_params_def scale_def rmse_def np_binop_def)
  from a b show ?thesis ..
qed

text \<open>
  Claim C7, with 5001 combinations. The combined uncertainty is computed from
  \<^verbatim>\<open>sumcol(errorbars, 5000)\<close>, which leaves the variance of the column of index 5000 out:
  for one test sample and 5001 variances that are all one, it is the square root of
  5000, and not the square root of the sum 5001 of all the variances.
\<close>

theorem error_bars_skip_column_5000:
  "scale (error_bars_of (full 1 5001 1)) 1 = [sqrt 5000]
   \<and> (\<Sum>i<5001. entry (full 1 5001 1) 0 i) = 5001
   \<and> sqrt 5000 < sqrt 5001"
proof -
  have "card {i. i < Suc 5000 \<and> int i \<noteq> int 5000} = 5000"
    by (rule card_below_skip)
  then have c: "card {i. i < (5001::nat) \<and> int i \<noteq> 5000} = 5000"
    by simp
  have s: "sumcol (full 1 5001 1) 5000 = [5000]"
    unfolding sumcol_full c by simp
  have a: "scale (error_bars_of (full 1 5001 1)) 1 = [sqrt 5000]"
    unfolding error_bars_of_def s by (simp add: scale_def)
  have "(\<Sum>i<5001. entry (full 1 5001 1) 0 i) = (\<Sum>i<(5001::nat). (1::real))"
    by (intro sum.cong) (simp_all add: entry_full)
  then have t: "(\<Sum>i<5001. entry (full 1 5001 1) 0 i) = 5001"
    by simp
  have l: "sqrt 5000 < sqrt 5001"
    by simp
  from a t l show ?thesis by blast
qed

end
